theory Spec2Isabelle
  imports Complex_Main "HOL-Library.Multiset"
begin

section \<open>Scalars, vectors and matrices\<close>

text \<open>
  The program computes with Eigen's dense vectors and matrices of \<^verbatim>\<open>double\<close>.
  A \<^verbatim>\<open>double\<close> is read as a real number with exact arithmetic: rounding, overflow and
  signed zeros are not represented, so the theorems below say which formula the program
  evaluates and on which data, and nothing about the exact equality of two rounded
  results. The one function of the program that inspects
  non-finite values, \<^verbatim>\<open>CrossEntropy::calculate\<close>, is embedded over a separate scalar
  type with infinities and NaN further below.

  An \<^verbatim>\<open>Eigen::VectorXd\<close> is the list of its coefficients. An \<^verbatim>\<open>Eigen::MatrixXd\<close> carries
  its two dimensions and the list of its rows. Eigen asserts that the operands of a
  coefficient-wise operation or a product have fitting dimensions; the list functions
  below are total, and the theorems that depend on fitting dimensions assume them.
\<close>

type_synonym VectorXd = "real list"

record MatrixXd =
  rows :: nat
  cols :: nat
  data :: "real list list"

definition coeff :: "MatrixXd \<Rightarrow> nat \<Rightarrow> nat \<Rightarrow> real" where
  "coeff M i j = data M ! i ! j"

definition wf_MatrixXd :: "MatrixXd \<Rightarrow> bool" where
  "wf_MatrixXd M \<longleftrightarrow>
     length (data M) = rows M \<and> list_all (\<lambda>r. length r = cols M) (data M)"

definition VectorXd_Zero :: "nat \<Rightarrow> VectorXd" where
  "VectorXd_Zero n = replicate n 0"

definition MatrixXd_Zero :: "nat \<Rightarrow> nat \<Rightarrow> MatrixXd" where
  "MatrixXd_Zero r c = \<lparr>rows = r, cols = c, data = replicate r (replicate c 0)\<rparr>"

definition vec_add :: "VectorXd \<Rightarrow> VectorXd \<Rightarrow> VectorXd" where
  "vec_add u v = map2 (+) u v"

definition vec_sub :: "VectorXd \<Rightarrow> VectorXd \<Rightarrow> VectorXd" where
  "vec_sub u v = map2 (-) u v"

definition vec_scale :: "real \<Rightarrow> VectorXd \<Rightarrow> VectorXd" where
  "vec_scale c v = map ((*) c) v"

definition cwiseProduct :: "VectorXd \<Rightarrow> VectorXd \<Rightarrow> VectorXd" where
  "cwiseProduct u v = map2 (*) u v"

definition cwiseQuotient :: "VectorXd \<Rightarrow> VectorXd \<Rightarrow> VectorXd" where
  "cwiseQuotient u v = map2 (/) u v"

definition dot :: "VectorXd \<Rightarrow> VectorXd \<Rightarrow> real" where
  "dot u v = sum_list (map2 (*) u v)"

definition mat_vec :: "MatrixXd \<Rightarrow> VectorXd \<Rightarrow> VectorXd" where
  "mat_vec M x = map (\<lambda>r. dot r x) (data M)"

definition outer :: "VectorXd \<Rightarrow> VectorXd \<Rightarrow> MatrixXd" where
  "outer u v = \<lparr>rows = length u, cols = length v,
                data = map (\<lambda>ui. map (\<lambda>vj. ui * vj) v) u\<rparr>"

definition transpose_m :: "MatrixXd \<Rightarrow> MatrixXd" where
  "transpose_m M = \<lparr>rows = cols M, cols = rows M,
                    data = map (\<lambda>j. map (\<lambda>r. r ! j) (data M)) [0..<cols M]\<rparr>"

definition mat_add :: "MatrixXd \<Rightarrow> MatrixXd \<Rightarrow> MatrixXd" where
  "mat_add A B = \<lparr>rows = rows A, cols = cols A,
                  data = map2 (\<lambda>r s. map2 (+) r s) (data A) (data B)\<rparr>"

definition mat_scale :: "real \<Rightarrow> MatrixXd \<Rightarrow> MatrixXd" where
  "mat_scale c A = \<lparr>rows = rows A, cols = cols A, data = map (map ((*) c)) (data A)\<rparr>"

definition squaredNorm_m :: "MatrixXd \<Rightarrow> real" where
  "squaredNorm_m A = sum_list (map (\<lambda>r. sum_list (map (\<lambda>v. v * v) r)) (data A))"

definition norm_m :: "MatrixXd \<Rightarrow> real" where
  "norm_m A = sqrt (squaredNorm_m A)"

definition norm_v :: "VectorXd \<Rightarrow> real" where
  "norm_v v = sqrt (sum_list (map (\<lambda>a. a * a) v))"

section \<open>Errors\<close>

text \<open>
  The two exception classes the program throws, each with its message, and two undefined
  behaviours: an index outside a container (\<^verbatim>\<open>front\<close>/\<^verbatim>\<open>back\<close> of an empty
  \<^verbatim>\<open>std::vector\<close>, a coefficient outside an Eigen vector, a range outside its sequence)
  and an integer division by zero.
\<close>

datatype error = range_error string | logic_error string | out_of_bounds | division_by_zero

fun to_string :: "nat \<Rightarrow> string" where
  \<comment> \<open>\<^verbatim>\<open>std::to_string\<close> of a \<^verbatim>\<open>size_t\<close>: the decimal digits\<close>
  "to_string n =
     (if n < 10 then [char_of (48 + n)]
      else to_string (n div 10) @ [char_of (48 + n mod 10)])"

section \<open>Activation functions\<close>

text \<open>
  The two classes derived from \<^verbatim>\<open>ActivationFunction\<close>; the virtual calls are the two
  dispatching functions \<open>calculate\<close> and \<open>calculate_derivative\<close>. The denominators of
  \<^verbatim>\<open>Logistic::calculate\<close> (at least 1) and of \<^verbatim>\<open>Softmax::calculate\<close> (a sum of
  exponentials, positive for a non-empty vector) are never zero in exact arithmetic.
\<close>

datatype ActivationFunction = Logistic | Softmax

definition Logistic_calculate :: "VectorXd \<Rightarrow> VectorXd" where
  "Logistic_calculate z = map (\<lambda>v. inverse (exp (- v) + 1)) z"

definition Logistic_calculate_derivative :: "VectorXd \<Rightarrow> VectorXd" where
  "Logistic_calculate_derivative z =
     (let f = Logistic_calculate z in cwiseProduct f (map (\<lambda>v. 1 - v) f))"

definition Softmax_calculate :: "VectorXd \<Rightarrow> VectorXd" where
  "Softmax_calculate z = (let zExp = map exp z in map (\<lambda>v. v / sum_list zExp) zExp)"

abbreviation unimplemented :: error where
  "unimplemented \<equiv> logic_error ''Softmax::calculate_derivative : unimplemented method''"

definition Softmax_calculate_derivative :: "VectorXd \<Rightarrow> error + VectorXd" where
  "Softmax_calculate_derivative z = Inl unimplemented"

fun calculate :: "ActivationFunction \<Rightarrow> VectorXd \<Rightarrow> VectorXd" where
  "calculate Logistic z = Logistic_calculate z"
| "calculate Softmax z = Softmax_calculate z"

fun calculate_derivative :: "ActivationFunction \<Rightarrow> VectorXd \<Rightarrow> error + VectorXd" where
  "calculate_derivative Logistic z = Inr (Logistic_calculate_derivative z)"
| "calculate_derivative Softmax z = Softmax_calculate_derivative z"

section \<open>Layer\<close>

text \<open>
  The private member \<^verbatim>\<open>size\<close> is named after its accessor \<^verbatim>\<open>getSize\<close>. Of the two
  overloads of \<^verbatim>\<open>feedForward\<close>, \<open>feedForward_az\<close> is the one that also returns the
  weighted input. \<^verbatim>\<open>feedBackward\<close> returns its three output parameters, or the exception
  of the activation's derivative, which it calls first.
\<close>

record Layer =
  getSize :: nat
  activationFunction :: ActivationFunction
  bias :: VectorXd
  weight :: MatrixXd

definition feedForward :: "Layer \<Rightarrow> VectorXd \<Rightarrow> VectorXd" where
  "feedForward L x = calculate (activationFunction L) (vec_add (mat_vec (weight L) x) (bias L))"

definition feedForward_az :: "Layer \<Rightarrow> VectorXd \<Rightarrow> VectorXd \<times> VectorXd" where
  "feedForward_az L x =
     (let z = vec_add (mat_vec (weight L) x) (bias L);
          a = calculate (activationFunction L) z
      in (a, z))"

definition feedBackward ::
  "Layer \<Rightarrow> VectorXd \<Rightarrow> VectorXd \<Rightarrow> VectorXd \<Rightarrow> error + (VectorXd \<times> MatrixXd \<times> VectorXd)" where
  "feedBackward L deltaPrevious a z =
     (case calculate_derivative (activationFunction L) z of
        Inl e \<Rightarrow> Inl e
      | Inr sigmaDerivative \<Rightarrow>
          (let delta = cwiseProduct deltaPrevious sigmaDerivative;
               delta_nabla_w = outer delta a;
               delta_nabla_b = delta
           in Inr (delta_nabla_b, delta_nabla_w, mat_vec (transpose_m (weight L)) delta)))"

definition updateBiasWeight :: "Layer \<Rightarrow> VectorXd \<Rightarrow> MatrixXd \<Rightarrow> real \<Rightarrow> real \<Rightarrow> Layer" where
  "updateBiasWeight L nabla_b nabla_w learningRateRatio regularizationRatio =
     L\<lparr>bias := vec_add (bias L) (vec_scale learningRateRatio nabla_b),
       weight := mat_add (weight L)
                   (mat_add (mat_scale learningRateRatio nabla_w)
                            (mat_scale regularizationRatio (weight L)))\<rparr>"

section \<open>Cost functions\<close>

text \<open>
  \<^verbatim>\<open>CrossEntropy::calculate\<close> filters its terms with \<^verbatim>\<open>std::isfinite\<close>, so its scalars
  are embedded with the special values of IEEE arithmetic: a finite value (an exact
  real), the two infinities and NaN. The operations follow IEEE 754 on the special
  values (\<^verbatim>\<open>0 * inf = NaN\<close>, \<^verbatim>\<open>inf - inf = NaN\<close>, \<^verbatim>\<open>log 0 = -inf\<close>, \<^verbatim>\<open>log\<close> of a
  negative number is NaN) and are exact on finite values.
\<close>

datatype fp = Finite real | PosInf | NegInf | NaN

fun isfinite :: "fp \<Rightarrow> bool" where
  "isfinite (Finite r) = True"
| "isfinite _ = False"

fun fp_neg :: "fp \<Rightarrow> fp" where
  "fp_neg (Finite r) = Finite (- r)"
| "fp_neg PosInf = NegInf"
| "fp_neg NegInf = PosInf"
| "fp_neg NaN = NaN"

fun fp_add :: "fp \<Rightarrow> fp \<Rightarrow> fp" where
  "fp_add (Finite a) (Finite b) = Finite (a + b)"
| "fp_add NaN y = NaN"
| "fp_add x NaN = NaN"
| "fp_add PosInf NegInf = NaN"
| "fp_add NegInf PosInf = NaN"
| "fp_add PosInf y = PosInf"
| "fp_add x PosInf = PosInf"
| "fp_add NegInf y = NegInf"
| "fp_add x NegInf = NegInf"

definition fp_sub :: "fp \<Rightarrow> fp \<Rightarrow> fp" where
  "fp_sub x y = fp_add x (fp_neg y)"

fun fp_scale_inf :: "real \<Rightarrow> fp \<Rightarrow> fp" where
  "fp_scale_inf a w = (if a = 0 then NaN else if 0 < a then w else fp_neg w)"

fun fp_mul :: "fp \<Rightarrow> fp \<Rightarrow> fp" where
  "fp_mul (Finite a) (Finite b) = Finite (a * b)"
| "fp_mul NaN y = NaN"
| "fp_mul x NaN = NaN"
| "fp_mul (Finite a) y = fp_scale_inf a y"
| "fp_mul x (Finite b) = fp_scale_inf b x"
| "fp_mul PosInf y = y"
| "fp_mul NegInf y = fp_neg y"

fun fp_log :: "fp \<Rightarrow> fp" where
  "fp_log (Finite r) = (if 0 < r then Finite (ln r) else if r = 0 then NegInf else NaN)"
| "fp_log PosInf = PosInf"
| "fp_log NegInf = NaN"
| "fp_log NaN = NaN"

definition fp_sum :: "fp list \<Rightarrow> fp" where
  "fp_sum vs = foldr fp_add vs (Finite 0)"

fun fp_to_real :: "fp \<Rightarrow> real" where
  "fp_to_real (Finite r) = r"
| "fp_to_real _ = 0"

datatype CostFunction = Quadratic | CrossEntropy

definition CrossEntropy_term :: "fp \<Rightarrow> fp \<Rightarrow> fp" where
  \<comment> \<open>one coefficient of \<^verbatim>\<open>-t*log(x) - (1-t)*log(1-x)\<close>\<close>
  "CrossEntropy_term x t =
     fp_sub (fp_neg (fp_mul t (fp_log x)))
            (fp_mul (fp_sub (Finite 1) t) (fp_log (fp_sub (Finite 1) x)))"

definition CrossEntropy_calculate :: "fp list \<Rightarrow> fp list \<Rightarrow> fp" where
  "CrossEntropy_calculate x t =
     (let res = map2 CrossEntropy_term x t
      in fp_sum (map (\<lambda>v. if isfinite v then v else Finite 0) res))"

text \<open>
  The derivative divides by \<open>x * (1 - x)\<close>. Where this is zero the program produces an
  infinity or NaN and HOL's division produces 0; no statement below depends on the value
  of the derivative at such an \<open>x\<close>.
\<close>

definition CrossEntropy_calculate_derivative :: "VectorXd \<Rightarrow> VectorXd \<Rightarrow> VectorXd" where
  "CrossEntropy_calculate_derivative x t =
     cwiseQuotient (vec_sub x t) (cwiseProduct x (map (\<lambda>v. 1 - v) x))"

definition Quadratic_calculate :: "VectorXd \<Rightarrow> VectorXd \<Rightarrow> real" where
  "Quadratic_calculate x t = 0.5 * (norm_v (vec_sub t x))\<^sup>2"

definition Quadratic_calculate_derivative :: "VectorXd \<Rightarrow> VectorXd \<Rightarrow> VectorXd" where
  "Quadratic_calculate_derivative x t = vec_sub x t"

text \<open>
  The network's vectors are finite, so the cost of a sample is read back as a real
  number; \<open>CrossEntropy_calculate\<close> returns a finite value on every input
  (lemma \<open>CrossEntropy_calculate_finite\<close>).
\<close>

fun cost_calculate :: "CostFunction \<Rightarrow> VectorXd \<Rightarrow> VectorXd \<Rightarrow> real" where
  "cost_calculate Quadratic x t = Quadratic_calculate x t"
| "cost_calculate CrossEntropy x t =
     fp_to_real (CrossEntropy_calculate (map Finite x) (map Finite t))"

fun cost_calculate_derivative :: "CostFunction \<Rightarrow> VectorXd \<Rightarrow> VectorXd \<Rightarrow> VectorXd" where
  "cost_calculate_derivative Quadratic x t = Quadratic_calculate_derivative x t"
| "cost_calculate_derivative CrossEntropy x t = CrossEntropy_calculate_derivative x t"

section \<open>Network\<close>

type_synonym DataLabel_Pair = "VectorXd \<times> VectorXd"
type_synonym DataLabel_Set = "DataLabel_Pair list"

text \<open>
  The network with its four metric sequences. \<open>rngEngine\<close> is the engine of the
  network's optimizer (the copy \<^verbatim>\<open>Optimizer::initialize\<close> stores); its state type is a
  parameter. The template parameter \<^verbatim>\<open>PREDICTION\<close> is an integer type (the program
  instantiates it with \<^verbatim>\<open>size_t\<close>), modelled by \<open>int\<close>: the conversion from
  \<^verbatim>\<open>double\<close> truncates toward zero, and an index is in bounds when it is at least 0 and
  below the size of the vector. (For \<^verbatim>\<open>size_t\<close> the conversion of a value of -1 or less
  is itself undefined; such a value is out of bounds as an index here.)
\<close>

record 'g Network =
  inputSize :: nat
  layers :: "Layer list"
  costFunction :: CostFunction
  rngEngine :: 'g
  trainingCost :: "real list"
  trainingAccuracy :: "real list"
  evaluationCost :: "real list"
  evaluationAccuracy :: "real list"

definition static_cast_PREDICTION :: "real \<Rightarrow> int" where
  \<comment> \<open>conversion of a \<^verbatim>\<open>double\<close> to an integer type: truncation toward zero\<close>
  "static_cast_PREDICTION v = (if 0 \<le> v then \<lfloor>v\<rfloor> else \<lceil>v\<rceil>)"

fun max_visitor :: "real \<Rightarrow> nat \<Rightarrow> nat \<Rightarrow> VectorXd \<Rightarrow> nat" where
  "max_visitor res idx i [] = idx"
| "max_visitor res idx i (v # vs) =
     (if res < v then max_visitor v i (Suc i) vs else max_visitor res idx (Suc i) vs)"

definition maxCoeff_index :: "VectorXd \<Rightarrow> nat" where
  \<comment> \<open>the index \<^verbatim>\<open>maxCoeff(&index)\<close> stores; only called on a vector of two or more coefficients\<close>
  "maxCoeff_index output = (case output of [] \<Rightarrow> 0 | v # vs \<Rightarrow> max_visitor v 0 1 vs)"

definition output2prediction :: "VectorXd \<Rightarrow> error + int" where
  "output2prediction output =
     (if length output > 1 then Inr (int (maxCoeff_index output))
      else (case output of
              [] \<Rightarrow> Inl out_of_bounds
            | v # _ \<Rightarrow> Inr (static_cast_PREDICTION v)))"

definition prediction2output :: "'g Network \<Rightarrow> VectorXd \<Rightarrow> error + VectorXd" where
  "prediction2output net prediction =
     (if length prediction > 1 then Inr prediction
      else if layers net = [] then Inl out_of_bounds
      else (let output = VectorXd_Zero (getSize (last (layers net)))
            in case prediction of
                 [] \<Rightarrow> Inl out_of_bounds
               | p # _ \<Rightarrow>
                   (let i = static_cast_PREDICTION p
                    in if 0 \<le> i \<and> i < int (length output)
                       then Inr (output[nat i := 1])
                       else Inl out_of_bounds)))"

fun feedForward_layers :: "Layer list \<Rightarrow> VectorXd \<Rightarrow> VectorXd" where
  "feedForward_layers [] a = a"
| "feedForward_layers (layer # rest) a = feedForward_layers rest (feedForward layer a)"

definition Network_feedForward :: "'g Network \<Rightarrow> VectorXd \<Rightarrow> VectorXd" where
  "Network_feedForward net x = feedForward_layers (layers net) x"

definition predict :: "'g Network \<Rightarrow> VectorXd \<Rightarrow> error + int" where
  "predict net input = output2prediction (Network_feedForward net input)"

fun calcAccuracyAndCost_loop ::
  "'g Network \<Rightarrow> DataLabel_Set \<Rightarrow> nat \<times> real \<Rightarrow> error + (nat \<times> real)" where
  "calcAccuracyAndCost_loop net [] (correct, cost) = Inr (correct, cost)"
| "calcAccuracyAndCost_loop net (input # rest) (correct, cost) =
     (let predictedOutput = Network_feedForward net (fst input)
      in case output2prediction predictedOutput of
           Inl e \<Rightarrow> Inl e
         | Inr prediction \<Rightarrow>
      (case prediction2output net (snd input) of
           Inl e \<Rightarrow> Inl e
         | Inr expectedOutput \<Rightarrow>
      (case output2prediction (snd input) of
           Inl e \<Rightarrow> Inl e
         | Inr expected \<Rightarrow>
             calcAccuracyAndCost_loop net rest
               (if prediction = expected then correct + 1 else correct,
                cost + cost_calculate (costFunction net) predictedOutput expectedOutput))))"

definition calcAccuracyAndCost ::
  "'g Network \<Rightarrow> DataLabel_Set \<Rightarrow> real \<Rightarrow> error + (nat \<times> real)" where
  "calcAccuracyAndCost net dataset lambda =
     (case calcAccuracyAndCost_loop net dataset (0, 0) of
        Inl e \<Rightarrow> Inl e
      | Inr (correct, cost) \<Rightarrow>
          (let costRegularization =
                 foldl (\<lambda>acc layer. acc + (norm_m (weight layer))\<^sup>2) 0 (layers net)
           in Inr (correct, cost + (lambda / 2) * costRegularization)))"

subsection \<open>Backpropagation\<close>

fun forward_pass :: "Layer list \<Rightarrow> VectorXd \<Rightarrow> VectorXd list \<times> VectorXd list" where
  \<comment> \<open>the weighted inputs \<^verbatim>\<open>zs\<close> and the activations, the input first\<close>
  "forward_pass [] a = ([], [a])"
| "forward_pass (layer # rest) a =
     (let (a', z) = feedForward_az layer a;
          (zs, activations) = forward_pass rest a'
      in (z # zs, a # activations))"

fun backward_pass ::
  "(Layer \<times> VectorXd \<times> VectorXd) list \<Rightarrow> VectorXd \<Rightarrow> error + (VectorXd \<times> MatrixXd) list" where
  \<comment> \<open>the layers from the last to the first, each with its lower activation and its
      weighted input; the gradients are returned first layer first\<close>
  "backward_pass [] delta = Inr []"
| "backward_pass ((layer, a, z) # rest) delta =
     (case feedBackward layer delta a z of
        Inl e \<Rightarrow> Inl e
      | Inr (delta_nabla_b, delta_nabla_w, delta') \<Rightarrow>
          (case backward_pass rest delta' of
             Inl e \<Rightarrow> Inl e
           | Inr grads \<Rightarrow> Inr (grads @ [(delta_nabla_b, delta_nabla_w)])))"

definition backPropagate ::
  "'g Network \<Rightarrow> VectorXd \<Rightarrow> VectorXd \<Rightarrow> error + (VectorXd \<times> MatrixXd) list" where
  "backPropagate net x y =
     (let (zs, activations) = forward_pass (layers net) x;
          delta = cost_calculate_derivative (costFunction net) (last activations) y
      in backward_pass (rev (zip (layers net) (zip (butlast activations) zs))) delta)"

subsection \<open>Parameter update\<close>

definition zero_nablas :: "'g Network \<Rightarrow> (VectorXd \<times> MatrixXd) list" where
  \<comment> \<open>one zero bias vector and one zero weight matrix per layer; the columns of the
      first are the input size, of the others the size of the layer before\<close>
  "zero_nablas net =
     map2 (\<lambda>layer previousSize.
             (VectorXd_Zero (getSize layer), MatrixXd_Zero (getSize layer) previousSize))
          (layers net) (inputSize net # map getSize (layers net))"

definition add_nablas ::
  "(VectorXd \<times> MatrixXd) list \<Rightarrow> (VectorXd \<times> MatrixXd) list \<Rightarrow> (VectorXd \<times> MatrixXd) list" where
  "add_nablas nabla delta_nabla =
     map2 (\<lambda>(nabla_b, nabla_w) (delta_nabla_b, delta_nabla_w).
             (vec_add nabla_b delta_nabla_b, mat_add nabla_w delta_nabla_w))
          nabla delta_nabla"

fun accumulate_nablas ::
  "'g Network \<Rightarrow> DataLabel_Set \<Rightarrow> (VectorXd \<times> MatrixXd) list \<Rightarrow>
   error + (VectorXd \<times> MatrixXd) list" where
  "accumulate_nablas net [] nabla = Inr nabla"
| "accumulate_nablas net (sample # rest) nabla =
     (case backPropagate net (fst sample) (snd sample) of
        Inl e \<Rightarrow> Inl e
      | Inr delta_nabla \<Rightarrow> accumulate_nablas net rest (add_nablas nabla delta_nabla))"

definition updateParameters ::
  "DataLabel_Set \<Rightarrow> real \<Rightarrow> real \<Rightarrow> 'g Network \<Rightarrow> error + 'g Network" where
  "updateParameters training learningRateRatio regularizationRatio net =
     (if layers net = [] then Inl out_of_bounds
      else (case accumulate_nablas net training (zero_nablas net) of
              Inl e \<Rightarrow> Inl e
            | Inr nabla \<Rightarrow>
                Inr (net\<lparr>layers :=
                       map2 (\<lambda>layer (nabla_b, nabla_w).
                               updateBiasWeight layer nabla_b nabla_w
                                 learningRateRatio regularizationRatio)
                            (layers net) nabla\<rparr>)))"

section \<open>Optimizer (stochastic gradient descent)\<close>

text \<open>
  \<^verbatim>\<open>std::swap_ranges(first1, last1, first2)\<close> on two containers, the iterators given as
  positions. A range that leaves its container is undefined behaviour.
\<close>

definition swap_ranges ::
  "'a list \<Rightarrow> nat \<Rightarrow> nat \<Rightarrow> 'a list \<Rightarrow> nat \<Rightarrow> error + ('a list \<times> 'a list)" where
  "swap_ranges xs first1 last1 ys first2 =
     (let n = last1 - first1
      in if last1 < first1 \<or> length xs < last1 \<or> length ys < first2 + n
         then Inl out_of_bounds
         else Inr (take first1 xs @ take n (drop first2 ys) @ drop last1 xs,
                   take first2 ys @ take n (drop first1 xs) @ drop (first2 + n) ys))"

text \<open>
  The batch loop of \<^verbatim>\<open>StochasticGradientDescent::optimize\<close>. \<open>update_network\<close> is the
  callback stored by \<^verbatim>\<open>Optimizer::initialize\<close>; it works on the state \<open>st\<close> (the network)
  and may throw, in which case the state is the one before the call and the training
  set is left as it is at that moment. The result is the exception, if any, with the
  training set and the state.
\<close>

function optimize_loop ::
  "(DataLabel_Set \<Rightarrow> real \<Rightarrow> real \<Rightarrow> 's \<Rightarrow> error + 's) \<Rightarrow> nat \<Rightarrow> nat \<Rightarrow> real \<Rightarrow> real \<Rightarrow>
   nat \<Rightarrow> DataLabel_Set \<Rightarrow> DataLabel_Set \<Rightarrow> 's \<Rightarrow> error option \<times> DataLabel_Set \<times> 's" where
  "optimize_loop update_network nBatches batchSize learningRateRatio regularizationRatio
     iBatch training batch st =
     (if iBatch < nBatches then
        (let initialBatchIndex = iBatch * batchSize
         in case swap_ranges training initialBatchIndex (initialBatchIndex + batchSize) batch 0 of
              Inl e \<Rightarrow> (Some e, training, st)
            | Inr (training1, batch1) \<Rightarrow>
         (case update_network batch1 learningRateRatio regularizationRatio st of
              Inl e \<Rightarrow> (Some e, training1, st)
            | Inr st' \<Rightarrow>
         (case swap_ranges batch1 0 (length batch1) training1 initialBatchIndex of
              Inl e \<Rightarrow> (Some e, training1, st')
            | Inr (batch2, training2) \<Rightarrow>
                optimize_loop update_network nBatches batchSize learningRateRatio
                  regularizationRatio (Suc iBatch) training2 batch2 st')))
      else (None, training, st))"
  by pat_completeness auto
termination
  by (relation "measure (\<lambda>(u, nBatches, b, l, r, iBatch, t, bt, s). nBatches - iBatch)") auto

declare optimize_loop.simps [simp del]

text \<open>
  \<open>shuffle\<close> stands for \<^verbatim>\<open>std::shuffle\<close> with the optimizer's engine: it returns the
  reordered sequence and the engine's next state.
\<close>

definition optimize ::
  "(DataLabel_Set \<Rightarrow> real \<Rightarrow> real \<Rightarrow> 's \<Rightarrow> error + 's) \<Rightarrow> ('g \<Rightarrow> DataLabel_Set \<Rightarrow> DataLabel_Set \<times> 'g) \<Rightarrow>
   'g \<Rightarrow> DataLabel_Set \<Rightarrow> nat \<Rightarrow> nat \<Rightarrow> real \<Rightarrow> real \<Rightarrow> 's \<Rightarrow>
   error option \<times> DataLabel_Set \<times> 's \<times> 'g" where
  "optimize update_network shuffle g training nBatches batchSize learningRateRatio
     regularizationRatio st =
     (let (training0, g') = shuffle g training;
          batch = replicate batchSize ([], []);
          (e, training', st') =
             optimize_loop update_network nBatches batchSize learningRateRatio
               regularizationRatio 0 training0 batch st
      in (e, training', st', g'))"

section \<open>Training\<close>

text \<open>
  One pass of the epoch loop of \<^verbatim>\<open>Network::train\<close>: the optimizer's pass with
  \<^verbatim>\<open>updateParameters\<close> as its callback, then the two evaluations and the four metric
  entries. The costs and success counts are divided by the sizes of the sets; for an
  empty evaluation set the program records NaN where HOL's division gives 0, and no
  statement below depends on the value of a metric.
\<close>

definition train_epoch ::
  "('g \<Rightarrow> DataLabel_Set \<Rightarrow> DataLabel_Set \<times> 'g) \<Rightarrow> DataLabel_Set \<Rightarrow> nat \<Rightarrow> nat \<Rightarrow> real \<Rightarrow> real \<Rightarrow>
   nat \<Rightarrow> nat \<Rightarrow> 'g Network \<Rightarrow> DataLabel_Set \<Rightarrow>
   error option \<times> 'g Network \<times> DataLabel_Set" where
  "train_epoch shuffle evaluation nBatches batchSize learningRateRatio regularizationRatio
     nTraining nEvaluation net training =
     (case optimize updateParameters shuffle (rngEngine net) training nBatches batchSize
             learningRateRatio regularizationRatio net of
        (Some e, training', net', g') \<Rightarrow> (Some e, net'\<lparr>rngEngine := g'\<rparr>, training')
      | (None, training', net', g') \<Rightarrow>
          (let net1 = net'\<lparr>rngEngine := g'\<rparr>
           in case calcAccuracyAndCost net1 training' 0 of
                Inl e \<Rightarrow> (Some e, net1, training')
              | Inr (nTrainingSuccess, trainingCost') \<Rightarrow>
           (case calcAccuracyAndCost net1 evaluation 0 of
                Inl e \<Rightarrow> (Some e, net1, training')
              | Inr (nEvaluationSuccess, evaluationCost') \<Rightarrow>
                  (None,
                   net1\<lparr>trainingCost := trainingCost net1 @ [trainingCost' / real nTraining],
                        trainingAccuracy :=
                          trainingAccuracy net1 @ [real nTrainingSuccess / real nTraining],
                        evaluationCost :=
                          evaluationCost net1 @ [evaluationCost' / real nEvaluation],
                        evaluationAccuracy :=
                          evaluationAccuracy net1 @ [real nEvaluationSuccess / real nEvaluation]\<rparr>,
                   training'))))"

fun train_loop ::
  "('g \<Rightarrow> DataLabel_Set \<Rightarrow> DataLabel_Set \<times> 'g) \<Rightarrow> DataLabel_Set \<Rightarrow> nat \<Rightarrow> nat \<Rightarrow> real \<Rightarrow> real \<Rightarrow>
   nat \<Rightarrow> nat \<Rightarrow> nat \<Rightarrow> 'g Network \<Rightarrow> DataLabel_Set \<Rightarrow>
   error option \<times> 'g Network \<times> DataLabel_Set" where
  "train_loop shuffle evaluation nBatches batchSize learningRateRatio regularizationRatio
     nTraining nEvaluation 0 net training = (None, net, training)"
| "train_loop shuffle evaluation nBatches batchSize learningRateRatio regularizationRatio
     nTraining nEvaluation (Suc nEpoch) net training =
     (case train_epoch shuffle evaluation nBatches batchSize learningRateRatio
             regularizationRatio nTraining nEvaluation net training of
        (Some e, net', training') \<Rightarrow> (Some e, net', training')
      | (None, net', training') \<Rightarrow>
          train_loop shuffle evaluation nBatches batchSize learningRateRatio
            regularizationRatio nTraining nEvaluation nEpoch net' training')"

text \<open>
  \<^verbatim>\<open>Network::train\<close>. The result is the exception thrown, if any, with the network and
  the training set (passed by reference) as the call leaves them. \<^verbatim>\<open>front()\<close> of an empty
  training set, \<^verbatim>\<open>back()\<close> of an empty layer sequence and the integer division by a zero
  batch size are undefined behaviour.
\<close>

definition train ::
  "('g \<Rightarrow> DataLabel_Set \<Rightarrow> DataLabel_Set \<times> 'g) \<Rightarrow> 'g Network \<Rightarrow> DataLabel_Set \<Rightarrow> DataLabel_Set \<Rightarrow>
   nat \<Rightarrow> nat \<Rightarrow> real \<Rightarrow> real \<Rightarrow> error option \<times> 'g Network \<times> DataLabel_Set" where
  "train shuffle net training evaluation nEpoch batchSize eta lambda =
     (case training of
        [] \<Rightarrow> (Some out_of_bounds, net, training)
      | front # _ \<Rightarrow>
          if length (fst front) \<noteq> inputSize net
          then (Some (range_error
                  (''Network::train : input layer size ('' @ to_string (inputSize net)
                   @ '') is inconsistent with training input data size (''
                   @ to_string (length (fst front)) @ '')'')), net, training)
          else if layers net = [] then (Some out_of_bounds, net, training)
          else if length (snd front) \<noteq> getSize (last (layers net))
          then (Some (range_error
                  (''Network::train : output layer size (''
                   @ to_string (getSize (last (layers net)))
                   @ '') is inconsistent with training output data size (''
                   @ to_string (length (snd front)) @ '')'')), net, training)
          else if batchSize = 0 then (Some division_by_zero, net, training)
          else (let nTraining = length training;
                    nBatches = nTraining div batchSize;
                    nEvaluation = length evaluation;
                    learningRateRatio = - eta / real batchSize;
                    regularizationRatio = - eta * lambda / real nTraining
                in train_loop shuffle evaluation nBatches batchSize learningRateRatio
                     regularizationRatio nTraining nEvaluation nEpoch net training))"

section \<open>Reference functions for the optimizer\<close>

text \<open>
  Two functions that are not part of the program, used to state what the optimizer
  does: \<open>spec_batch\<close> is the slice \<open>[iBatch * batchSize, (iBatch + 1) * batchSize)\<close> of a
  sequence, and \<open>spec_run_batches\<close> invokes a callback on a list of batches in order,
  stopping at the first exception. \<open>recording_callback\<close> is a callback that never throws
  and appends its three arguments to a log.
\<close>

definition spec_batch :: "'a list \<Rightarrow> nat \<Rightarrow> nat \<Rightarrow> 'a list" where
  "spec_batch xs batchSize iBatch = map (\<lambda>k. xs ! (iBatch * batchSize + k)) [0..<batchSize]"

fun spec_run_batches ::
  "(DataLabel_Set \<Rightarrow> real \<Rightarrow> real \<Rightarrow> 's \<Rightarrow> error + 's) \<Rightarrow> real \<Rightarrow> real \<Rightarrow>
   DataLabel_Set list \<Rightarrow> 's \<Rightarrow> error + 's" where
  "spec_run_batches update_network lr reg [] st = Inr st"
| "spec_run_batches update_network lr reg (b # bs) st =
     (case update_network b lr reg st of
        Inl e \<Rightarrow> Inl e
      | Inr st' \<Rightarrow> spec_run_batches update_network lr reg bs st')"

definition recording_callback ::
  "DataLabel_Set \<Rightarrow> real \<Rightarrow> real \<Rightarrow> (DataLabel_Set \<times> real \<times> real) list \<Rightarrow>
   error + (DataLabel_Set \<times> real \<times> real) list" where
  "recording_callback batch lr reg calls = Inr (calls @ [(batch, lr, reg)])"

section \<open>Example data\<close>

text \<open>Concrete layers, networks and data sets on which the theorems are instantiated.\<close>

definition ex_layer :: Layer where
  "ex_layer = \<lparr>getSize = 1, activationFunction = Logistic, bias = [0],
                weight = \<lparr>rows = 1, cols = 2, data = [[1, 2]]\<rparr>\<rparr>"

definition ex_shuffle :: "nat \<Rightarrow> DataLabel_Set \<Rightarrow> DataLabel_Set \<times> nat" where
  \<comment> \<open>a stand-in for \<^verbatim>\<open>std::shuffle\<close>: reverses the sequence and steps the engine\<close>
  "ex_shuffle g xs = (rev xs, Suc g)"

definition ex_training :: DataLabel_Set where
  "ex_training = [([1, 0], [1]), ([2, 0], [0]), ([3, 0], [0]), ([4, 0], [0]), ([5, 0], [0])]"

definition ex_net :: "nat Network" where
  "ex_net = \<lparr>inputSize = 2, layers = [ex_layer], costFunction = Quadratic, rngEngine = 0,
             trainingCost = [], trainingAccuracy = [], evaluationCost = [],
             evaluationAccuracy = []\<rparr>"

definition ex_softmax_layer :: Layer where
  "ex_softmax_layer = \<lparr>getSize = 1, activationFunction = Softmax, bias = [0],
                        weight = \<lparr>rows = 1, cols = 2, data = [[1, 2]]\<rparr>\<rparr>"

definition ex_softmax_net :: "nat Network" where
  "ex_softmax_net = \<lparr>inputSize = 2, layers = [ex_softmax_layer], costFunction = Quadratic,
             rngEngine = 0, trainingCost = [], trainingAccuracy = [], evaluationCost = [],
             evaluationAccuracy = []\<rparr>"

section \<open>Vectors and matrices by index\<close>

lemma dot_nth:
  "length u = length v \<Longrightarrow> dot u v = (\<Sum>i<length u. u ! i * v ! i)"
  by (simp add: dot_def sum_list_sum_nth atLeast0LessThan)

lemma wf_MatrixXd_nth:
  "wf_MatrixXd M \<Longrightarrow> i < rows M \<Longrightarrow> length (data M ! i) = cols M"
  by (simp add: wf_MatrixXd_def list_all_length)

lemma wf_outer: "wf_MatrixXd (outer u v)"
  by (simp add: wf_MatrixXd_def outer_def list_all_iff)

lemma coeff_outer: "i < length u \<Longrightarrow> j < length v \<Longrightarrow> coeff (outer u v) i j = u ! i * v ! j"
  by (simp add: coeff_def outer_def)

lemma mat_vec_transpose_nth:
  assumes "wf_MatrixXd W" "length d = rows W" "j < cols W"
  shows "mat_vec (transpose_m W) d ! j = (\<Sum>i<rows W. coeff W i j * d ! i)"
proof -
  have len: "length (data W) = length d"
    using assms by (simp add: wf_MatrixXd_def)
  have "mat_vec (transpose_m W) d ! j = dot (map (\<lambda>r. r ! j) (data W)) d"
    using assms by (simp add: mat_vec_def transpose_m_def)
  also have "\<dots> = (\<Sum>i<length (data W). map (\<lambda>r. r ! j) (data W) ! i * d ! i)"
    using len by (simp add: dot_nth)
  also have "\<dots> = (\<Sum>i<rows W. coeff W i j * d ! i)"
    using assms by (simp add: wf_MatrixXd_def coeff_def)
  finally show ?thesis .
qed

section \<open>Activation functions: results\<close>

lemma length_Logistic_calculate [simp]: "length (Logistic_calculate z) = length z"
  by (simp add: Logistic_calculate_def)

lemma length_Logistic_calculate_derivative [simp]:
  "length (Logistic_calculate_derivative z) = length z"
  by (simp add: Logistic_calculate_derivative_def Let_def cwiseProduct_def)

lemma calculate_derivative_Inr:
  "calculate_derivative act z = Inr sd \<Longrightarrow> act = Logistic \<and> sd = Logistic_calculate_derivative z"
  by (cases act) (simp_all add: Softmax_calculate_derivative_def)

section \<open>Layer: results\<close>

text \<open>
  C1. Whenever the activation's derivative at \<open>z\<close> returns \<open>sd\<close>, and the shapes fit
  (the weight matrix has one row per coefficient of \<open>z\<close> and one column per coefficient
  of \<open>a_prev\<close>, and \<open>deltaNext\<close> is as long as \<open>z\<close>), \<^verbatim>\<open>Layer::feedBackward\<close> returns
  \<open>delta = deltaNext \<odot> sd\<close> as the bias gradient, the outer product of \<open>delta\<close> and
  \<open>a_prev\<close> as the weight gradient, and the transposed weight matrix times \<open>delta\<close> as
  the propagated error. The layer has no position: the function is the same for every
  layer of a network.
\<close>

theorem feedBackward_spec:
  assumes deriv: "calculate_derivative (activationFunction L) z = Inr sd"
    and wf: "wf_MatrixXd (weight L)"
    and shapes: "rows (weight L) = length z" "cols (weight L) = length a_prev"
                "length deltaNext = length z"
  shows "\<exists>delta gradWeight deltaPrev.
           feedBackward L deltaNext a_prev z = Inr (delta, gradWeight, deltaPrev) \<and>
           length sd = length z \<and>
           length delta = length z \<and>
           (\<forall>i<length z. delta ! i = deltaNext ! i * sd ! i) \<and>
           wf_MatrixXd gradWeight \<and> rows gradWeight = length z \<and>
           cols gradWeight = length a_prev \<and>
           (\<forall>i<length z. \<forall>j<length a_prev. coeff gradWeight i j = delta ! i * a_prev ! j) \<and>
           length deltaPrev = length a_prev \<and>
           (\<forall>j<length a_prev. deltaPrev ! j = (\<Sum>i<length z. coeff (weight L) i j * delta ! i))"
proof -
  define delta where "delta = cwiseProduct deltaNext sd"
  have sd: "length sd = length z"
    using calculate_derivative_Inr [OF deriv] by simp
  have ld: "length delta = length z"
    using sd shapes by (simp add: delta_def cwiseProduct_def)
  have fb: "feedBackward L deltaNext a_prev z =
              Inr (delta, outer delta a_prev, mat_vec (transpose_m (weight L)) delta)"
    using deriv by (simp add: feedBackward_def delta_def Let_def)
  have d: "\<forall>i<length z. delta ! i = deltaNext ! i * sd ! i"
    using sd shapes by (simp add: delta_def cwiseProduct_def)
  have w: "\<forall>i<length z. \<forall>j<length a_prev. coeff (outer delta a_prev) i j = delta ! i * a_prev ! j"
    using ld by (simp add: coeff_outer)
  have lp: "length (mat_vec (transpose_m (weight L)) delta) = length a_prev"
    using shapes by (simp add: mat_vec_def transpose_m_def)
  have p: "\<forall>j<length a_prev. mat_vec (transpose_m (weight L)) delta ! j =
             (\<Sum>i<length z. coeff (weight L) i j * delta ! i)"
    using mat_vec_transpose_nth [OF wf, of delta] ld shapes by simp
  show ?thesis
    using fb sd ld d w lp p wf_outer [of delta a_prev] by (simp add: outer_def)
qed

theorem feedBackward_spec_witness:
  "calculate_derivative (activationFunction ex_layer) [0] = Inr [1 / 4] \<and>
   wf_MatrixXd (weight ex_layer) \<and>
   rows (weight ex_layer) = length [0 :: real] \<and>
   cols (weight ex_layer) = length [1, 3 :: real] \<and>
   length [4 :: real] = length [0 :: real] \<and>
   (\<exists>delta gradWeight deltaPrev.
      feedBackward ex_layer [4] [1, 3] [0] = Inr (delta, gradWeight, deltaPrev) \<and>
      delta ! 0 = 1 \<and> coeff gradWeight 0 1 = 3 \<and> deltaPrev ! 1 = 2)"
proof -
  have h1: "calculate_derivative (activationFunction ex_layer) [0] = Inr [1 / 4]"
    by (simp add: ex_layer_def Logistic_calculate_derivative_def Logistic_calculate_def
        cwiseProduct_def)
  have h2: "wf_MatrixXd (weight ex_layer)"
    by (simp add: ex_layer_def wf_MatrixXd_def)
  have h3: "rows (weight ex_layer) = length [0 :: real]"
    and h4: "cols (weight ex_layer) = length [1, 3 :: real]"
    and h5: "length [4 :: real] = length [0 :: real]"
    by (simp_all add: ex_layer_def)
  from feedBackward_spec [OF h1 h2 h3 h4 h5]
  obtain delta gradWeight deltaPrev where
    fb: "feedBackward ex_layer [4] [1, 3] [0] = Inr (delta, gradWeight, deltaPrev)"
    and d: "\<forall>i<length [0 :: real]. delta ! i = [4] ! i * [1 / 4] ! i"
    and w: "\<forall>i<length [0 :: real]. \<forall>j<length [1, 3 :: real].
              coeff gradWeight i j = delta ! i * [1, 3] ! j"
    and p: "\<forall>j<length [1, 3 :: real].
              deltaPrev ! j = (\<Sum>i<length [0 :: real]. coeff (weight ex_layer) i j * delta ! i)"
    by blast
  have d0: "delta ! 0 = 1" using d by simp
  have w01: "coeff gradWeight 0 1 = 3" using w d0 by simp
  have p1: "deltaPrev ! 1 = 2" using p d0 by (simp add: ex_layer_def coeff_def)
  show ?thesis using h1 h2 h3 h4 h5 fb d0 w01 p1 by blast
qed

text \<open>
  C3. For gradients of the layer's shapes, \<^verbatim>\<open>Layer::updateBiasWeight\<close> sets every bias
  coefficient to \<open>bias + lrRatio * gradBias\<close> and every weight coefficient to
  \<open>weight + lrRatio * gradWeight + regRatio * weight\<close>. The new bias is the same for
  every regularization ratio: the decay term touches the weights only.
\<close>

theorem updateBiasWeight_spec:
  assumes lb: "length nabla_b = length (bias L)"
    and wfW: "wf_MatrixXd (weight L)" and wfG: "wf_MatrixXd nabla_w"
    and dims: "rows nabla_w = rows (weight L)" "cols nabla_w = cols (weight L)"
  shows "let L' = updateBiasWeight L nabla_b nabla_w lrRatio regRatio in
           length (bias L') = length (bias L) \<and>
           (\<forall>i<length (bias L). bias L' ! i = bias L ! i + lrRatio * nabla_b ! i) \<and>
           bias L' = bias (updateBiasWeight L nabla_b nabla_w lrRatio regRatio') \<and>
           wf_MatrixXd (weight L') \<and>
           rows (weight L') = rows (weight L) \<and> cols (weight L') = cols (weight L) \<and>
           (\<forall>i<rows (weight L). \<forall>j<cols (weight L).
              coeff (weight L') i j =
                coeff (weight L) i j + lrRatio * coeff nabla_w i j
                  + regRatio * coeff (weight L) i j) \<and>
           getSize L' = getSize L \<and> activationFunction L' = activationFunction L"
proof -
  have lenW: "length (data (weight L)) = rows (weight L)"
    and lenG: "length (data nabla_w) = rows (weight L)"
    using wfW wfG dims by (simp_all add: wf_MatrixXd_def)
  have rowW: "\<And>i. i < rows (weight L) \<Longrightarrow> length (data (weight L) ! i) = cols (weight L)"
    using wfW by (simp add: wf_MatrixXd_nth)
  have rowG: "\<And>i. i < rows (weight L) \<Longrightarrow> length (data nabla_w ! i) = cols (weight L)"
    using wfG dims wf_MatrixXd_nth [of nabla_w] by simp
  have b: "\<forall>i<length (bias L).
             bias (updateBiasWeight L nabla_b nabla_w lrRatio regRatio) ! i =
               bias L ! i + lrRatio * nabla_b ! i"
    using lb by (simp add: updateBiasWeight_def vec_add_def vec_scale_def)
  have wf': "wf_MatrixXd (weight (updateBiasWeight L nabla_b nabla_w lrRatio regRatio))"
    using lenW lenG rowW rowG
    by (simp add: updateBiasWeight_def wf_MatrixXd_def mat_add_def mat_scale_def
        list_all_length)
  have w: "\<forall>i<rows (weight L). \<forall>j<cols (weight L).
             coeff (weight (updateBiasWeight L nabla_b nabla_w lrRatio regRatio)) i j =
               coeff (weight L) i j + lrRatio * coeff nabla_w i j
                 + regRatio * coeff (weight L) i j"
    using lenW lenG rowW rowG
    by (simp add: updateBiasWeight_def coeff_def mat_add_def mat_scale_def algebra_simps)
  show ?thesis
    unfolding Let_def using b wf' w lb
    by (simp add: updateBiasWeight_def vec_add_def vec_scale_def mat_add_def)
qed

theorem updateBiasWeight_spec_witness:
  "length [4 :: real] = length (bias ex_layer) \<and>
   wf_MatrixXd (weight ex_layer) \<and>
   wf_MatrixXd \<lparr>rows = 1, cols = 2, data = [[10, 20]]\<rparr> \<and>
   rows \<lparr>rows = 1, cols = 2, data = [[10, 20 :: real]]\<rparr> = rows (weight ex_layer) \<and>
   cols \<lparr>rows = 1, cols = 2, data = [[10, 20 :: real]]\<rparr> = cols (weight ex_layer) \<and>
   bias (updateBiasWeight ex_layer [4] \<lparr>rows = 1, cols = 2, data = [[10, 20]]\<rparr> 2 3) ! 0 = 8 \<and>
   coeff (weight (updateBiasWeight ex_layer [4] \<lparr>rows = 1, cols = 2, data = [[10, 20]]\<rparr> 2 3))
     0 1 = 48"
proof -
  let ?G = "\<lparr>rows = 1, cols = 2, data = [[10, 20 :: real]]\<rparr>"
  have h1: "length [4 :: real] = length (bias ex_layer)"
    and h2: "wf_MatrixXd (weight ex_layer)"
    and h3: "wf_MatrixXd ?G"
    and h4: "rows ?G = rows (weight ex_layer)"
    and h5: "cols ?G = cols (weight ex_layer)"
    by (simp_all add: ex_layer_def wf_MatrixXd_def)
  have c: "coeff (weight ex_layer) 0 1 = 2" "coeff ?G 0 1 = 20" "bias ex_layer ! 0 = 0"
    "rows (weight ex_layer) = 1" "cols (weight ex_layer) = 2" "length (bias ex_layer) = 1"
    by (simp_all add: ex_layer_def coeff_def)
  from updateBiasWeight_spec [OF h1 h2 h3 h4 h5, of 2 3 3]
  have b: "\<forall>i<length (bias ex_layer).
             bias (updateBiasWeight ex_layer [4] ?G 2 3) ! i = bias ex_layer ! i + 2 * [4] ! i"
    and w: "\<forall>i<rows (weight ex_layer). \<forall>j<cols (weight ex_layer).
              coeff (weight (updateBiasWeight ex_layer [4] ?G 2 3)) i j =
                coeff (weight ex_layer) i j + 2 * coeff ?G i j + 3 * coeff (weight ex_layer) i j"
    unfolding Let_def by blast+
  have "bias (updateBiasWeight ex_layer [4] ?G 2 3) ! 0 = 8"
    using b c by simp
  moreover have "coeff (weight (updateBiasWeight ex_layer [4] ?G 2 3)) 0 1 = 48"
    using w c by simp
  ultimately have "bias (updateBiasWeight ex_layer [4] ?G 2 3) ! 0 = 8"
    and "coeff (weight (updateBiasWeight ex_layer [4] ?G 2 3)) 0 1 = 48"
    by blast+
  then show ?thesis using h1 h2 h3 h4 h5 by blast
qed

section \<open>Cost functions: results\<close>

lemma fp_sum_Finite:
  "list_all isfinite vs \<Longrightarrow> fp_sum vs = Finite (sum_list (map fp_to_real vs))"
proof (induction vs)
  case Nil
  then show ?case by (simp add: fp_sum_def)
next
  case (Cons v vs)
  then show ?case by (cases v) (simp_all add: fp_sum_def)
qed

lemma isfinite_iff: "isfinite v \<longleftrightarrow> (\<exists>r. v = Finite r)"
  by (cases v) simp_all

lemma CrossEntropy_filter_sum:
  "fp_sum (map (\<lambda>v. if isfinite v then v else Finite 0) res) =
     Finite (sum_list (map (\<lambda>v. if isfinite v then fp_to_real v else 0) res))"
proof -
  have "list_all isfinite (map (\<lambda>v. if isfinite v then v else Finite 0) res)"
    by (induction res) simp_all
  then have "fp_sum (map (\<lambda>v. if isfinite v then v else Finite 0) res) =
      Finite (sum_list (map fp_to_real (map (\<lambda>v. if isfinite v then v else Finite 0) res)))"
    by (rule fp_sum_Finite)
  also have "map fp_to_real (map (\<lambda>v. if isfinite v then v else Finite 0) res) =
      map (\<lambda>v. if isfinite v then fp_to_real v else 0) res"
    by simp
  finally show ?thesis .
qed

lemma CrossEntropy_calculate_finite: "isfinite (CrossEntropy_calculate x t)"
  by (simp add: CrossEntropy_calculate_def CrossEntropy_filter_sum)

lemma CrossEntropy_term_inside:
  "0 < x \<Longrightarrow> x < 1 \<Longrightarrow>
   CrossEntropy_term (Finite x) (Finite t) = Finite (- (t * ln x) - (1 - t) * ln (1 - x))"
  by (simp add: CrossEntropy_term_def fp_sub_def)

lemma CrossEntropy_term_outside:
  "\<not> (0 < x \<and> x < 1) \<Longrightarrow> \<not> isfinite (CrossEntropy_term (Finite x) (Finite t))"
  by (cases "x < 0"; cases "x = 0"; cases "x = 1"; cases "t = 0"; cases "t = 1";
      cases "0 < t"; cases "t < 1")
     (simp_all add: CrossEntropy_term_def fp_sub_def)

lemma sum_list_map2_nth:
  "length xs = length ys \<Longrightarrow>
   sum_list (map (g :: 'c \<Rightarrow> real) (map2 f xs ys)) = (\<Sum>i<length xs. g (f (xs ! i) (ys ! i)))"
  by (simp add: sum_list_sum_nth atLeast0LessThan)

text \<open>
  C6. For vectors of equal length, \<^verbatim>\<open>CrossEntropy::calculate\<close> returns the finite sum,
  over the components, of the term \<open>-t*ln(x) - (1-t)*ln(1-x)\<close> where it is finite and of
  0 where it is not. For finite \<open>x\<close> and \<open>t\<close> the term is the real number of that
  formula when \<open>0 < x < 1\<close>, and it is not finite otherwise, in particular at
  \<open>x = 0\<close> and \<open>x = 1\<close>.
\<close>

theorem CrossEntropy_calculate_spec:
  assumes len: "length predicted = length target"
  shows "CrossEntropy_calculate predicted target =
           Finite (\<Sum>i<length predicted.
                     if isfinite (CrossEntropy_term (predicted ! i) (target ! i))
                     then fp_to_real (CrossEntropy_term (predicted ! i) (target ! i)) else 0) \<and>
         (\<forall>x t. 0 < x \<and> x < 1 \<longrightarrow>
            CrossEntropy_term (Finite x) (Finite t) =
              Finite (- (t * ln x) - (1 - t) * ln (1 - x))) \<and>
         (\<forall>x t. \<not> (0 < x \<and> x < 1) \<longrightarrow> \<not> isfinite (CrossEntropy_term (Finite x) (Finite t)))"
proof -
  have "CrossEntropy_calculate predicted target =
          Finite (sum_list (map (\<lambda>v. if isfinite v then fp_to_real v else 0)
                                (map2 CrossEntropy_term predicted target)))"
    by (simp only: CrossEntropy_calculate_def Let_def CrossEntropy_filter_sum)
  then have "CrossEntropy_calculate predicted target =
           Finite (\<Sum>i<length predicted.
                     if isfinite (CrossEntropy_term (predicted ! i) (target ! i))
                     then fp_to_real (CrossEntropy_term (predicted ! i) (target ! i)) else 0)"
    using len by (simp only: sum_list_map2_nth)
  then show ?thesis
    using CrossEntropy_term_inside CrossEntropy_term_outside by blast
qed

theorem CrossEntropy_calculate_spec_witness:
  "length [Finite (1 / 2), Finite 0, Finite 1] = length [Finite 1, Finite 1, Finite 1] \<and>
   CrossEntropy_calculate [Finite (1 / 2), Finite 0, Finite 1] [Finite 1, Finite 1, Finite 1] =
     Finite (- ln (1 / 2)) \<and>
   CrossEntropy_term (Finite (1 / 2)) (Finite 1) = Finite (- ln (1 / 2)) \<and>
   \<not> isfinite (CrossEntropy_term (Finite 0) (Finite 1)) \<and>
   \<not> isfinite (CrossEntropy_term (Finite 1) (Finite 1))"
proof -
  let ?p = "[Finite (1 / 2), Finite 0, Finite 1]"
  let ?t = "[Finite 1, Finite 1, Finite 1]"
  have h: "length ?p = length ?t" by simp
  note spec = CrossEntropy_calculate_spec [OF h]
  have inside: "CrossEntropy_term (Finite (1 / 2)) (Finite 1) = Finite (- ln (1 / 2))"
    using spec by simp
  have out0: "\<not> isfinite (CrossEntropy_term (Finite 0) (Finite 1))"
    and out1: "\<not> isfinite (CrossEntropy_term (Finite 1) (Finite 1))"
    using spec by simp_all
  have "CrossEntropy_calculate ?p ?t =
          Finite (\<Sum>i<length ?p.
                     if isfinite (CrossEntropy_term (?p ! i) (?t ! i))
                     then fp_to_real (CrossEntropy_term (?p ! i) (?t ! i)) else 0)"
    using spec by blast
  also have "\<dots> = Finite (- ln (1 / 2))"
    using inside out0 out1 by (simp add: numeral_3_eq_3 lessThan_Suc)
  finally show ?thesis using h inside out0 out1 by blast
qed

section \<open>Optimizer: results\<close>

lemma spec_batch_take_drop:
  "iBatch * batchSize + batchSize \<le> length xs \<Longrightarrow>
   spec_batch xs batchSize iBatch = take batchSize (drop (iBatch * batchSize) xs)"
  by (rule nth_equalityI) (simp_all add: spec_batch_def)

lemma swap_out:
  assumes "length batch = batchSize" "i + batchSize \<le> length training"
  shows "swap_ranges training i (i + batchSize) batch 0 =
           Inr (take i training @ batch @ drop (i + batchSize) training,
                take batchSize (drop i training))"
  using assms by (simp add: swap_ranges_def)

lemma swap_back:
  assumes "length batch = batchSize" "i + batchSize \<le> length training"
    and b1: "b1 = take batchSize (drop i training)"
    and t1: "t1 = take i training @ batch @ drop (i + batchSize) training"
  shows "swap_ranges b1 0 (length b1) t1 i = Inr (batch, training)"
proof -
  have l: "length b1 = batchSize"
    using assms by simp
  have i: "i \<le> length training" using assms by simp
  have "take i training @ take batchSize (drop i training) @ drop (i + batchSize) training
          = training"
    by (metis append_take_drop_id drop_drop add.commute)
  then show ?thesis
    using assms(1,2) l i unfolding swap_ranges_def b1 t1 by (simp add: min_absorb2)
qed

lemma batch_in_range:
  "iBatch < nBatches \<Longrightarrow> nBatches * batchSize \<le> n \<Longrightarrow> iBatch * batchSize + batchSize \<le> (n::nat)"
proof -
  assume a: "iBatch < nBatches" "nBatches * batchSize \<le> n"
  then have "Suc iBatch * batchSize \<le> nBatches * batchSize"
    by (intro mult_le_mono1) simp
  then show ?thesis using a by simp
qed

lemma optimize_loop_step:
  assumes "iBatch < nBatches" "length batch = batchSize" "nBatches * batchSize \<le> length training"
  shows "optimize_loop upd nBatches batchSize lr reg iBatch training batch st =
     (case upd (take batchSize (drop (iBatch * batchSize) training)) lr reg st of
        Inl e \<Rightarrow> (Some e, take (iBatch * batchSize) training @ batch
                            @ drop (iBatch * batchSize + batchSize) training, st)
      | Inr st' \<Rightarrow> optimize_loop upd nBatches batchSize lr reg (Suc iBatch) training batch st')"
proof -
  have r: "iBatch * batchSize + batchSize \<le> length training"
    using assms batch_in_range by blast
  define b1 where "b1 = take batchSize (drop (iBatch * batchSize) training)"
  define t1 where "t1 = take (iBatch * batchSize) training @ batch
                          @ drop (iBatch * batchSize + batchSize) training"
  have out: "swap_ranges training (iBatch * batchSize) (iBatch * batchSize + batchSize) batch 0
               = Inr (t1, b1)"
    unfolding b1_def t1_def by (rule swap_out [OF assms(2) r])
  have swb: "swap_ranges b1 0 (length b1) t1 (iBatch * batchSize) = Inr (batch, training)"
    by (rule swap_back [OF assms(2) r b1_def t1_def])
  show ?thesis
    using assms(1)
    by (subst optimize_loop.simps)
       (simp add: out swb Let_def b1_def [symmetric] t1_def [symmetric] split: sum.splits)
qed

lemma optimize_loop_done:
  "\<not> iBatch < nBatches \<Longrightarrow>
   optimize_loop upd nBatches batchSize lr reg iBatch training batch st = (None, training, st)"
  by (subst optimize_loop.simps) simp

lemma optimize_loop_Inr:
  assumes "length batch = batchSize" "nBatches * batchSize \<le> length training"
  shows "spec_run_batches upd lr reg
           (map (spec_batch training batchSize) [iBatch..<nBatches]) st = Inr st' \<Longrightarrow>
         optimize_loop upd nBatches batchSize lr reg iBatch training batch st =
           (None, training, st')"
proof (induction "nBatches - iBatch" arbitrary: iBatch st)
  case 0
  then show ?case by (simp add: optimize_loop_done)
next
  case (Suc n)
  then have lt: "iBatch < nBatches" by simp
  have r: "iBatch * batchSize + batchSize \<le> length training"
    using lt assms batch_in_range by blast
  from Suc.prems obtain st1 where
    u: "upd (spec_batch training batchSize iBatch) lr reg st = Inr st1"
    and rest: "spec_run_batches upd lr reg
                 (map (spec_batch training batchSize) [Suc iBatch..<nBatches]) st1 = Inr st'"
    using lt by (auto simp: upt_conv_Cons split: sum.splits)
  have "optimize_loop upd nBatches batchSize lr reg (Suc iBatch) training batch st1 =
          (None, training, st')"
    using Suc.hyps rest by (intro Suc.hyps(1)) simp_all
  then show ?case
    using u by (simp add: optimize_loop_step [OF lt assms] spec_batch_take_drop [OF r])
qed

lemma optimize_loop_Inl:
  assumes "length batch = batchSize" "nBatches * batchSize \<le> length training"
  shows "spec_run_batches upd lr reg
           (map (spec_batch training batchSize) [iBatch..<nBatches]) st = Inl e \<Longrightarrow>
         \<exists>training' st'. optimize_loop upd nBatches batchSize lr reg iBatch training batch st =
           (Some e, training', st')"
proof (induction "nBatches - iBatch" arbitrary: iBatch st)
  case 0
  then show ?case by simp
next
  case (Suc n)
  then have lt: "iBatch < nBatches" by simp
  have r: "iBatch * batchSize + batchSize \<le> length training"
    using lt assms batch_in_range by blast
  show ?case
  proof (cases "upd (spec_batch training batchSize iBatch) lr reg st")
    case (Inl e')
    then have "e' = e" using Suc.prems lt by (simp add: upt_conv_Cons)
    then show ?thesis
      using Inl by (simp add: optimize_loop_step [OF lt assms] spec_batch_take_drop [OF r])
  next
    case (Inr st1)
    then have "spec_run_batches upd lr reg
                 (map (spec_batch training batchSize) [Suc iBatch..<nBatches]) st1 = Inl e"
      using Suc.prems lt by (simp add: upt_conv_Cons)
    then have "\<exists>training' st'. optimize_loop upd nBatches batchSize lr reg (Suc iBatch)
                 training batch st1 = (Some e, training', st')"
      using Suc.hyps by (intro Suc.hyps(1)) simp_all
    then show ?thesis
      using Inr by (simp add: optimize_loop_step [OF lt assms] spec_batch_take_drop [OF r])
  qed
qed


lemma optimize_Inr:
  assumes sh: "shuffle g training = (training0, g')"
    and bd: "nBatches * batchSize \<le> length training0"
    and run: "spec_run_batches upd lr reg
                (map (spec_batch training0 batchSize) [0..<nBatches]) st = Inr st'"
  shows "optimize upd shuffle g training nBatches batchSize lr reg st = (None, training0, st', g')"
proof -
  have lb: "length (replicate batchSize ([] :: VectorXd, [] :: VectorXd)) = batchSize" by simp
  from optimize_loop_Inr [OF lb bd run]
  show ?thesis using sh by (simp add: optimize_def)
qed

lemma optimize_Inl:
  assumes sh: "shuffle g training = (training0, g')"
    and bd: "nBatches * batchSize \<le> length training0"
    and run: "spec_run_batches upd lr reg
                (map (spec_batch training0 batchSize) [0..<nBatches]) st = Inl e"
  shows "\<exists>training' st'.
           optimize upd shuffle g training nBatches batchSize lr reg st
             = (Some e, training', st', g')"
proof -
  have lb: "length (replicate batchSize ([] :: VectorXd, [] :: VectorXd)) = batchSize" by simp
  from optimize_loop_Inl [OF lb bd run]
  show ?thesis using sh by (auto simp: optimize_def)
qed

lemma optimize_None_iff:
  assumes sh: "shuffle g training = (training0, g0)"
    and bd: "nBatches * batchSize \<le> length training0"
  shows "optimize upd shuffle g training nBatches batchSize lr reg st = (None, training', st', g')
     \<longleftrightarrow> training' = training0 \<and> g' = g0 \<and>
         spec_run_batches upd lr reg
           (map (spec_batch training0 batchSize) [0..<nBatches]) st = Inr st'"
proof (cases "spec_run_batches upd lr reg
                (map (spec_batch training0 batchSize) [0..<nBatches]) st")
  case (Inl e)
  from optimize_Inl [where shuffle = shuffle, OF sh bd this] show ?thesis using Inl by auto
next
  case (Inr s1)
  from optimize_Inr [where shuffle = shuffle, OF sh bd this] show ?thesis using Inr by auto
qed

lemma spec_run_batches_total:
  assumes "\<And>b s. \<exists>s'. upd b lr reg s = Inr s'"
  shows "\<exists>st'. spec_run_batches upd lr reg bs st = Inr st'"
proof (induction bs arbitrary: st)
  case Nil
  then show ?case by simp
next
  case (Cons b bs)
  obtain s1 where "upd b lr reg st = Inr s1" using assms by blast
  then show ?case using Cons.IH [of s1] by simp
qed

lemma spec_run_batches_recording:
  "spec_run_batches recording_callback lr reg bs calls =
     Inr (calls @ map (\<lambda>b. (b, lr, reg)) bs)"
  by (induction bs arbitrary: calls) (simp_all add: recording_callback_def)

text \<open>
  C9. When \<open>shuffle\<close> permutes the training set and the batches fit into it, a call of
  \<^verbatim>\<open>optimize\<close> that returns leaves the training set a permutation of its input, for
  every update callback; and the call returns whenever the callback does. The condition
  that the call returns is needed: when the callback throws, the exception leaves
  \<^verbatim>\<open>optimize\<close> between the two swaps, and the positions of the current batch hold the
  default-constructed pairs of the scratch buffer (\<open>optimize_first_batch_throws\<close>
  below, and the example that follows it).
\<close>

theorem optimize_permutation:
  assumes perm: "mset (fst (shuffle g training)) = mset training"
    and bound: "nBatches * batchSize \<le> length training"
  shows "(\<forall>training' st' g'.
            optimize upd shuffle g training nBatches batchSize lr reg st
              = (None, training', st', g') \<longrightarrow>
            mset training' = mset training) \<and>
         ((\<forall>b s. \<exists>s'. upd b lr reg s = Inr s') \<longrightarrow>
            fst (optimize upd shuffle g training nBatches batchSize lr reg st) = None)"
proof -
  obtain training0 g0 where sh: "shuffle g training = (training0, g0)"
    by (cases "shuffle g training")
  have p0: "mset training0 = mset training" using perm sh by simp
  then have "length training0 = length training"
    by (metis size_mset)
  then have bd: "nBatches * batchSize \<le> length training0"
    using bound by simp
  have a: "\<forall>training' st' g'.
            optimize upd shuffle g training nBatches batchSize lr reg st
              = (None, training', st', g') \<longrightarrow>
            mset training' = mset training"
    using p0 by (simp add: optimize_None_iff [where shuffle = shuffle, OF sh bd])
  have b: "(\<forall>b s. \<exists>s'. upd b lr reg s = Inr s') \<longrightarrow>
            fst (optimize upd shuffle g training nBatches batchSize lr reg st) = None"
  proof
    assume "\<forall>b s. \<exists>s'. upd b lr reg s = Inr s'"
    then obtain st' where
      "spec_run_batches upd lr reg
         (map (spec_batch training0 batchSize) [0..<nBatches]) st = Inr st'"
      using spec_run_batches_total [of upd lr reg] by blast
    from optimize_Inr [where shuffle = shuffle, OF sh bd this]
    show "fst (optimize upd shuffle g training nBatches batchSize lr reg st) = None"
      by simp
  qed
  show ?thesis using a b by blast
qed

theorem optimize_permutation_witness:
  "mset (fst (ex_shuffle 0 ex_training)) = mset ex_training \<and>
   2 * 2 \<le> length ex_training \<and>
   fst (optimize recording_callback ex_shuffle 0 ex_training 2 2 (- (1 / 20)) 0 []) = None \<and>
   mset (fst (snd (optimize recording_callback ex_shuffle 0 ex_training 2 2 (- (1 / 20)) 0 [])))
     = mset ex_training"
proof -
  have h1: "mset (fst (ex_shuffle 0 ex_training)) = mset ex_training"
    by (simp add: ex_shuffle_def)
  have h2: "2 * 2 \<le> length ex_training"
    by (simp add: ex_training_def)
  note spec = optimize_permutation [where shuffle = ex_shuffle and upd = recording_callback,
      OF h1 h2, of "- (1 / 20)" 0 "[]"]
  have tot: "\<forall>b s. \<exists>s'. recording_callback b (- (1 / 20)) 0 s = Inr s'"
    by (simp add: recording_callback_def)
  have r: "fst (optimize recording_callback ex_shuffle 0 ex_training 2 2 (- (1 / 20)) 0 []) = None"
    using spec tot by blast
  obtain training' st' g' where
    o: "optimize recording_callback ex_shuffle 0 ex_training 2 2 (- (1 / 20)) 0 []
          = (None, training', st', g')"
    using r by (metis fst_conv prod_cases4)
  then have "mset training' = mset ex_training"
    using spec by blast
  then show ?thesis using h1 h2 r o by simp
qed

section \<open>Exceptions of the backward pass\<close>

lemma feedBackward_Softmax:
  "activationFunction L = Softmax \<Longrightarrow> feedBackward L delta a z = Inl unimplemented"
  by (simp add: feedBackward_def Softmax_calculate_derivative_def)

lemma feedBackward_Logistic:
  "activationFunction L = Logistic \<Longrightarrow> \<exists>r. feedBackward L delta a z = Inr r"
  by (simp add: feedBackward_def Let_def)

lemma feedBackward_error:
  "feedBackward L delta a z = Inl e \<Longrightarrow> e = unimplemented"
  by (cases "activationFunction L")
     (simp_all add: feedBackward_def Let_def Softmax_calculate_derivative_def)

lemma backward_pass_error:
  "backward_pass ts delta = Inl e \<Longrightarrow> e = unimplemented"
proof (induction ts arbitrary: delta)
  case Nil
  then show ?case by simp
next
  case (Cons t ts)
  obtain L a z where t: "t = (L, a, z)" by (cases t)
  show ?case
  proof (cases "feedBackward L delta a z")
    case (Inl e')
    then show ?thesis using Cons.prems t feedBackward_error by auto
  next
    case (Inr r)
    obtain gb gw d' where r: "r = (gb, gw, d')" by (cases r)
    show ?thesis
      using Cons.prems Cons.IH [of d'] Inr t r by (auto split: sum.splits)
  qed
qed

lemma backward_pass_Softmax:
  "\<exists>t\<in>set ts. activationFunction (fst t) = Softmax \<Longrightarrow>
   backward_pass ts delta = Inl unimplemented"
proof (induction ts arbitrary: delta)
  case Nil
  then show ?case by simp
next
  case (Cons t ts)
  obtain L a z where t: "t = (L, a, z)" by (cases t)
  show ?case
  proof (cases "activationFunction L")
    case Softmax
    then show ?thesis using t by (simp add: feedBackward_Softmax)
  next
    case Logistic
    then obtain gb gw d' where fb: "feedBackward L delta a z = Inr (gb, gw, d')"
      using feedBackward_Logistic [of L delta a z] by (metis prod_cases3)
    have "\<exists>t\<in>set ts. activationFunction (fst t) = Softmax"
      using Cons.prems Logistic t by auto
    then have "backward_pass ts d' = Inl unimplemented" by (rule Cons.IH)
    then show ?thesis using fb t by simp
  qed
qed

lemma length_forward_pass:
  "length (fst (forward_pass ls a)) = length ls \<and>
   length (snd (forward_pass ls a)) = Suc (length ls)"
proof (induction ls arbitrary: a)
  case Nil
  then show ?case by simp
next
  case (Cons l ls)
  obtain a' z where f: "feedForward_az l a = (a', z)" by (cases "feedForward_az l a")
  obtain zs as where r: "forward_pass ls a' = (zs, as)" by (cases "forward_pass ls a'")
  show ?case using Cons.IH [of a'] f r by simp
qed

lemma backPropagate_Softmax:
  assumes "L \<in> set (layers net)" "activationFunction L = Softmax"
  shows "backPropagate net x y = Inl unimplemented"
proof -
  obtain zs activations where fp: "forward_pass (layers net) x = (zs, activations)"
    by (cases "forward_pass (layers net) x")
  have l: "length zs = length (layers net)" "length activations = Suc (length (layers net))"
    using length_forward_pass [of "layers net" x] fp by simp_all
  have "map fst (zip (layers net) (zip (butlast activations) zs)) = layers net"
    using l by (simp add: map_fst_zip)
  then have "L \<in> fst ` set (rev (zip (layers net) (zip (butlast activations) zs)))"
    using assms(1) by (metis set_map set_rev)
  then have "\<exists>t\<in>set (rev (zip (layers net) (zip (butlast activations) zs))).
               activationFunction (fst t) = Softmax"
    using assms(2) by auto
  then show ?thesis
    using fp by (simp add: backPropagate_def backward_pass_Softmax)
qed

lemma backPropagate_error:
  "backPropagate net x y = Inl e \<Longrightarrow> e = unimplemented"
  by (auto simp: backPropagate_def Let_def split: prod.splits dest: backward_pass_error)

lemma accumulate_nablas_error:
  "accumulate_nablas net batch nabla = Inl e \<Longrightarrow> e = unimplemented"
  by (induction batch arbitrary: nabla)
     (auto split: sum.splits dest: backPropagate_error)

lemma updateParameters_error:
  "updateParameters batch lr reg net = Inl e \<Longrightarrow> e = unimplemented \<or> e = out_of_bounds"
  by (auto simp: updateParameters_def split: if_splits sum.splits dest: accumulate_nablas_error)

lemma updateParameters_Softmax:
  assumes "L \<in> set (layers net)" "activationFunction L = Softmax" "batch \<noteq> []"
  shows "updateParameters batch lr reg net = Inl unimplemented"
proof -
  obtain s rest where b: "batch = s # rest" using assms(3) by (cases batch) auto
  have "layers net \<noteq> []" using assms(1) by auto
  then show ?thesis
    using b backPropagate_Softmax [OF assms(1,2)] by (simp add: updateParameters_def)
qed

lemma optimize_first_batch_throws:
  assumes sh: "shuffle g training = (training0, g')"
    and pos: "0 < nBatches"
    and bd: "nBatches * batchSize \<le> length training0"
    and thr: "upd (spec_batch training0 batchSize 0) lr reg st = Inl e"
  shows "optimize upd shuffle g training nBatches batchSize lr reg st =
           (Some e, replicate batchSize ([], []) @ drop batchSize training0, st, g')"
proof -
  have lb: "length (replicate batchSize ([] :: VectorXd, [] :: VectorXd)) = batchSize" by simp
  have r: "0 * batchSize + batchSize \<le> length training0"
    using pos bd batch_in_range by blast
  have "upd (take batchSize (drop (0 * batchSize) training0)) lr reg st = Inl e"
    using thr spec_batch_take_drop [OF r] by simp
  then have "optimize_loop upd nBatches batchSize lr reg 0 training0
               (replicate batchSize ([], [])) st =
             (Some e, replicate batchSize ([], []) @ drop batchSize training0, st)"
    by (simp add: optimize_loop_step [OF pos lb bd])
  then show ?thesis using sh by (simp add: optimize_def)
qed

lemma optimize_Softmax:
  assumes soft: "L \<in> set (layers net)" "activationFunction L = Softmax"
    and sh: "shuffle g training = (training0, g')"
    and pos: "0 < nBatches" "0 < batchSize"
    and bd: "nBatches * batchSize \<le> length training0"
  shows "optimize updateParameters shuffle g training nBatches batchSize lr reg net =
           (Some unimplemented, replicate batchSize ([], []) @ drop batchSize training0, net, g')"
proof -
  have "spec_batch training0 batchSize 0 \<noteq> []"
    using pos by (simp add: spec_batch_def)
  then have "updateParameters (spec_batch training0 batchSize 0) lr reg net = Inl unimplemented"
    by (rule updateParameters_Softmax [OF soft])
  then show ?thesis
    by (rule optimize_first_batch_throws [where shuffle = shuffle, OF sh pos(1) bd])
qed

text \<open>
  With a Softmax layer in the network the first call of the callback throws, and the
  training set that \<^verbatim>\<open>optimize\<close> leaves behind is no permutation of its input, although
  \<open>shuffle\<close> permutes and the batches fit: two samples are replaced by empty pairs.
\<close>

theorem optimize_permutation_counterexample:
  "mset (fst (ex_shuffle 0 ex_training)) = mset ex_training \<and>
   2 * 2 \<le> length ex_training \<and>
   optimize updateParameters ex_shuffle 0 ex_training 2 2 (- (1 / 20)) 0 ex_softmax_net =
     (Some unimplemented,
      [([], []), ([], []), ([3, 0], [0]), ([2, 0], [0]), ([1, 0], [1])],
      ex_softmax_net, 1) \<and>
   mset (fst (snd (optimize updateParameters ex_shuffle 0 ex_training 2 2 (- (1 / 20)) 0
                     ex_softmax_net))) \<noteq> mset ex_training"
proof -
  have h1: "mset (fst (ex_shuffle 0 ex_training)) = mset ex_training"
    by (simp add: ex_shuffle_def)
  have h2: "2 * 2 \<le> length ex_training"
    by (simp add: ex_training_def)
  have soft: "ex_softmax_layer \<in> set (layers ex_softmax_net)"
    "activationFunction ex_softmax_layer = Softmax"
    by (simp_all add: ex_softmax_net_def ex_softmax_layer_def)
  have sh: "ex_shuffle 0 ex_training = (rev ex_training, 1)"
    by (simp add: ex_shuffle_def)
  have bd: "2 * 2 \<le> length (rev ex_training)"
    using h2 by simp
  have "optimize updateParameters ex_shuffle 0 ex_training 2 2 (- (1 / 20)) 0 ex_softmax_net =
          (Some unimplemented, replicate 2 ([], []) @ drop 2 (rev ex_training),
           ex_softmax_net, 1)"
    by (rule optimize_Softmax [where shuffle = ex_shuffle, OF soft sh _ _ bd]) simp_all
  moreover have "replicate 2 ([], []) @ drop 2 (rev ex_training) =
      [([], []), ([], []), ([3, 0], [0]), ([2, 0], [0]), ([1, 0], [1])]"
    by (simp add: ex_training_def numeral_2_eq_2)
  ultimately have o: "optimize updateParameters ex_shuffle 0 ex_training 2 2 (- (1 / 20)) 0
       ex_softmax_net =
     (Some unimplemented,
      [([], []), ([], []), ([3, 0], [0]), ([2, 0], [0]), ([1, 0], [1])],
      ex_softmax_net, 1)"
    by simp
  have "([], []) \<in> set [([], []), ([], []), ([3, 0], [0]), ([2, 0], [0]), ([1, 0 :: real], [1 :: real])]"
    by simp
  moreover have "([], []) \<notin> set ex_training"
    by (simp add: ex_training_def)
  ultimately have "mset [([], []), ([], []), ([3, 0], [0]), ([2, 0], [0]), ([1, 0], [1])]
                     \<noteq> mset ex_training"
    using mset_eq_setD by blast
  then show ?thesis using h1 h2 o by simp
qed

section \<open>Training: exceptions\<close>

lemma train_passes:
  assumes "training = front # rest" "length (fst front) = inputSize net" "layers net \<noteq> []"
    "length (snd front) = getSize (last (layers net))" "0 < batchSize"
  shows "train shuffle net training evaluation nEpoch batchSize eta lambda =
           train_loop shuffle evaluation (length training div batchSize) batchSize
             (- eta / real batchSize) (- eta * lambda / real (length training))
             (length training) (length evaluation) nEpoch net training"
  using assms by (simp add: train_def Let_def)

lemma train_epoch_throws:
  assumes "optimize updateParameters shuffle (rngEngine net) training nBatches batchSize
             lr reg net = (Some e, training', net', g')"
  shows "train_epoch shuffle evaluation nBatches batchSize lr reg nTraining nEvaluation
           net training = (Some e, net'\<lparr>rngEngine := g'\<rparr>, training')"
  using assms by (simp add: train_epoch_def)

lemma train_Softmax:
  assumes soft: "L \<in> set (layers net)" "activationFunction L = Softmax"
    and sh: "shuffle (rngEngine net) training = (training0, g')"
    and len: "length training0 = length training"
    and front: "training = front # rest" "length (fst front) = inputSize net"
      "length (snd front) = getSize (last (layers net))"
    and pos: "0 < nEpoch" "0 < batchSize" "batchSize \<le> length training"
  shows "train shuffle net training evaluation nEpoch batchSize eta lambda =
           (Some unimplemented, net\<lparr>rngEngine := g'\<rparr>,
            replicate batchSize ([], []) @ drop batchSize training0)"
proof -
  let ?n = "length training div batchSize"
  have ne: "layers net \<noteq> []" using soft(1) by auto
  have n1: "0 < ?n" using pos by (simp add: div_greater_zero_iff)
  have bd: "?n * batchSize \<le> length training0" using len by simp
  obtain k where k: "nEpoch = Suc k" using pos(1) by (cases nEpoch) auto
  have "optimize updateParameters shuffle (rngEngine net) training ?n batchSize
          (- eta / real batchSize) (- eta * lambda / real (length training)) net =
        (Some unimplemented, replicate batchSize ([], []) @ drop batchSize training0, net, g')"
    by (rule optimize_Softmax [where shuffle = shuffle, OF soft sh n1 pos(2) bd])
  then have "train_epoch shuffle evaluation ?n batchSize
          (- eta / real batchSize) (- eta * lambda / real (length training))
          (length training) (length evaluation) net training =
        (Some unimplemented, net\<lparr>rngEngine := g'\<rparr>,
         replicate batchSize ([], []) @ drop batchSize training0)"
    by (rule train_epoch_throws)
  then show ?thesis
    using k by (simp add: train_passes [OF front(1,2) ne front(3) pos(2)])
qed

text \<open>
  C7. \<^verbatim>\<open>Softmax::calculate_derivative\<close> throws its \<^verbatim>\<open>logic_error\<close> for every \<open>z\<close>, and the
  exception passes through every caller unchanged: \<^verbatim>\<open>Layer::feedBackward\<close> of a Softmax
  layer; \<^verbatim>\<open>backPropagate\<close> of a network with a Softmax layer, for every sample;
  \<^verbatim>\<open>updateParameters\<close> on a non-empty batch; \<^verbatim>\<open>optimize\<close> with at least one non-empty
  batch, at its first batch; and \<^verbatim>\<open>train\<close> with data that passes its checks, at least
  one epoch and a positive batch size not above the size of the training set. The
  network that \<^verbatim>\<open>optimize\<close> and \<^verbatim>\<open>train\<close> leave has its layers and metrics untouched.
\<close>

theorem Softmax_derivative_propagates:
  "Softmax_calculate_derivative z = Inl unimplemented \<and>
   calculate_derivative Softmax z = Inl unimplemented \<and>
   (activationFunction L = Softmax \<longrightarrow> feedBackward L delta a z' = Inl unimplemented) \<and>
   (L \<in> set (layers net) \<and> activationFunction L = Softmax \<longrightarrow>
      backPropagate net x y = Inl unimplemented \<and>
      (batch \<noteq> [] \<longrightarrow> updateParameters batch lr reg net = Inl unimplemented) \<and>
      (0 < nBatches \<and> 0 < batchSize \<and> nBatches * batchSize \<le> length training \<and>
       length (fst (shuffle g training)) = length training \<longrightarrow>
         optimize updateParameters shuffle g training nBatches batchSize lr reg net =
           (Some unimplemented,
            replicate batchSize ([], []) @ drop batchSize (fst (shuffle g training)),
            net, snd (shuffle g training))) \<and>
      (training \<noteq> [] \<and> length (fst (hd training)) = inputSize net \<and>
       length (snd (hd training)) = getSize (last (layers net)) \<and>
       0 < nEpoch \<and> 0 < batchSize \<and> batchSize \<le> length training \<and>
       length (fst (shuffle (rngEngine net) training)) = length training \<longrightarrow>
         train shuffle net training evaluation nEpoch batchSize eta lambda =
           (Some unimplemented,
            net\<lparr>rngEngine := snd (shuffle (rngEngine net) training)\<rparr>,
            replicate batchSize ([], [])
              @ drop batchSize (fst (shuffle (rngEngine net) training)))))"
proof -
  have a: "Softmax_calculate_derivative z = Inl unimplemented"
    by (simp add: Softmax_calculate_derivative_def)
  then have b: "calculate_derivative Softmax z = Inl unimplemented" by simp
  have c: "activationFunction L = Softmax \<longrightarrow> feedBackward L delta a z' = Inl unimplemented"
    by (simp add: feedBackward_Softmax)
  have d: "backPropagate net x y = Inl unimplemented"
    if "L \<in> set (layers net)" "activationFunction L = Softmax"
    using that by (rule backPropagate_Softmax)
  have e: "updateParameters batch lr reg net = Inl unimplemented"
    if "L \<in> set (layers net)" "activationFunction L = Softmax" "batch \<noteq> []"
    using that by (rule updateParameters_Softmax)
  have f: "optimize updateParameters shuffle g training nBatches batchSize lr reg net =
           (Some unimplemented,
            replicate batchSize ([], []) @ drop batchSize (fst (shuffle g training)),
            net, snd (shuffle g training))"
    if soft: "L \<in> set (layers net)" "activationFunction L = Softmax"
      and pos: "0 < nBatches" "0 < batchSize" "nBatches * batchSize \<le> length training"
      and len: "length (fst (shuffle g training)) = length training"
  proof -
    obtain t0 g0 where sh: "shuffle g training = (t0, g0)" by (cases "shuffle g training")
    have bd: "nBatches * batchSize \<le> length t0"
      using len sh pos(3) by simp
    show ?thesis
      using optimize_Softmax [where shuffle = shuffle, OF soft sh pos(1,2) bd] sh by simp
  qed
  have g: "train shuffle net training evaluation nEpoch batchSize eta lambda =
           (Some unimplemented,
            net\<lparr>rngEngine := snd (shuffle (rngEngine net) training)\<rparr>,
            replicate batchSize ([], [])
              @ drop batchSize (fst (shuffle (rngEngine net) training)))"
    if soft: "L \<in> set (layers net)" "activationFunction L = Softmax"
      and ne: "training \<noteq> []"
      and chk: "length (fst (hd training)) = inputSize net"
        "length (snd (hd training)) = getSize (last (layers net))"
      and pos: "0 < nEpoch" "0 < batchSize" "batchSize \<le> length training"
      and len: "length (fst (shuffle (rngEngine net) training)) = length training"
  proof -
    obtain front rest where tr: "training = front # rest"
      using ne by (cases training) auto
    obtain t1 g1 where sh1: "shuffle (rngEngine net) training = (t1, g1)"
      by (cases "shuffle (rngEngine net) training")
    have l1: "length t1 = length training"
      using len sh1 by simp
    have c1: "length (fst front) = inputSize net"
      and c2: "length (snd front) = getSize (last (layers net))"
      using chk tr by simp_all
    show ?thesis
      using train_Softmax [where shuffle = shuffle, OF soft sh1 l1 tr c1 c2 pos] sh1
      by simp
  qed
  show ?thesis using a b c d e f g by blast
qed

theorem Softmax_derivative_propagates_witness:
  "activationFunction ex_softmax_layer = Softmax \<and>
   ex_softmax_layer \<in> set (layers ex_softmax_net) \<and>
   [([1, 0], [1])] \<noteq> ([] :: DataLabel_Set) \<and>
   (0::nat) < 2 \<and> 2 * 2 \<le> length ex_training \<and>
   length (fst (ex_shuffle 0 ex_training)) = length ex_training \<and>
   ex_training \<noteq> [] \<and>
   length (fst (hd ex_training)) = inputSize ex_softmax_net \<and>
   length (snd (hd ex_training)) = getSize (last (layers ex_softmax_net)) \<and>
   (0::nat) < 1 \<and> 2 \<le> length ex_training \<and>
   length (fst (ex_shuffle (rngEngine ex_softmax_net) ex_training)) = length ex_training \<and>
   Softmax_calculate_derivative [0] = Inl unimplemented \<and>
   feedBackward ex_softmax_layer [1] [1, 0] [0] = Inl unimplemented \<and>
   backPropagate ex_softmax_net [1, 0] [1] = Inl unimplemented \<and>
   updateParameters [([1, 0], [1])] (- (1 / 20)) 0 ex_softmax_net = Inl unimplemented \<and>
   optimize updateParameters ex_shuffle 0 ex_training 2 2 (- (1 / 20)) 0 ex_softmax_net =
     (Some unimplemented,
      [([], []), ([], []), ([3, 0], [0]), ([2, 0], [0]), ([1, 0], [1])],
      ex_softmax_net, 1) \<and>
   train ex_shuffle ex_softmax_net ex_training [] 1 2 (1 / 10) 0 =
     (Some unimplemented, ex_softmax_net\<lparr>rngEngine := 1\<rparr>,
      [([], []), ([], []), ([3, 0], [0]), ([2, 0], [0]), ([1, 0], [1])])"
proof -
  have h1: "activationFunction ex_softmax_layer = Softmax"
    by (simp add: ex_softmax_layer_def)
  have h2: "ex_softmax_layer \<in> set (layers ex_softmax_net)"
    by (simp add: ex_softmax_net_def)
  have h3: "[([1, 0], [1])] \<noteq> ([] :: DataLabel_Set)" by simp
  have h4: "(0::nat) < 2" "2 * 2 \<le> length ex_training" "(0::nat) < 1" "2 \<le> length ex_training"
    "ex_training \<noteq> []"
    by (simp_all add: ex_training_def)
  have h5: "length (fst (ex_shuffle 0 ex_training)) = length ex_training"
    "length (fst (ex_shuffle (rngEngine ex_softmax_net) ex_training)) = length ex_training"
    by (simp_all add: ex_shuffle_def)
  have h6: "length (fst (hd ex_training)) = inputSize ex_softmax_net"
    "length (snd (hd ex_training)) = getSize (last (layers ex_softmax_net))"
    by (simp_all add: ex_training_def ex_softmax_net_def ex_softmax_layer_def)
  note spec = Softmax_derivative_propagates [where L = ex_softmax_layer and net = ex_softmax_net
      and z = "[0]" and z' = "[0]" and delta = "[1]" and a = "[1, 0]" and x = "[1, 0]"
      and y = "[1]" and batch = "[([1, 0], [1])]" and lr = "- (1 / 20)" and reg = 0
      and nBatches = 2 and batchSize = 2 and training = ex_training and shuffle = ex_shuffle
      and g = 0 and nEpoch = 1 and eta = "1 / 10" and lambda = 0 and evaluation = "[]"]
  have c1: "Softmax_calculate_derivative [0] = Inl unimplemented"
    and c2: "feedBackward ex_softmax_layer [1] [1, 0] [0] = Inl unimplemented"
    and c3: "backPropagate ex_softmax_net [1, 0] [1] = Inl unimplemented"
    and c4: "updateParameters [([1, 0], [1])] (- (1 / 20)) 0 ex_softmax_net = Inl unimplemented"
    using spec h1 h2 h3 by blast+
  have c5: "optimize updateParameters ex_shuffle 0 ex_training 2 2 (- (1 / 20)) 0 ex_softmax_net =
           (Some unimplemented,
            replicate 2 ([], []) @ drop 2 (fst (ex_shuffle 0 ex_training)),
            ex_softmax_net, snd (ex_shuffle 0 ex_training))"
    using spec h1 h2 h4 h5 by blast
  have c6: "train ex_shuffle ex_softmax_net ex_training [] 1 2 (1 / 10) 0 =
           (Some unimplemented,
            ex_softmax_net\<lparr>rngEngine := snd (ex_shuffle (rngEngine ex_softmax_net) ex_training)\<rparr>,
            replicate 2 ([], [])
              @ drop 2 (fst (ex_shuffle (rngEngine ex_softmax_net) ex_training)))"
    using spec h1 h2 h4 h5 h6 by blast
  have e1: "replicate 2 ([], []) @ drop 2 (fst (ex_shuffle 0 ex_training)) =
        [([], []), ([], []), ([3, 0], [0]), ([2, 0], [0]), ([1, 0], [1])]"
    by (simp add: ex_shuffle_def ex_training_def numeral_2_eq_2)
  have e2: "snd (ex_shuffle 0 ex_training) = 1" "rngEngine ex_softmax_net = 0"
    by (simp_all add: ex_shuffle_def ex_softmax_net_def)
  show ?thesis
    using h1 h2 h3 h4 h5 h6 c1 c2 c3 c4 c5 c6 unfolding e2 e1 by blast
qed

lemma output2prediction_error: "output2prediction v = Inl e \<Longrightarrow> e = out_of_bounds"
  by (auto simp: output2prediction_def split: if_splits list.splits)

lemma prediction2output_error: "prediction2output net v = Inl e \<Longrightarrow> e = out_of_bounds"
  by (auto simp: prediction2output_def Let_def split: if_splits list.splits)

lemma calcAccuracyAndCost_loop_error:
  "calcAccuracyAndCost_loop net dataset acc = Inl e \<Longrightarrow> e = out_of_bounds"
proof (induction dataset arbitrary: acc)
  case Nil
  then show ?case by (cases acc) simp
next
  case (Cons s dataset)
  obtain correct cost where acc: "acc = (correct, cost)" by (cases acc)
  show ?case
    using Cons.prems Cons.IH unfolding acc
    by (auto simp: Let_def split: sum.splits
        dest: output2prediction_error prediction2output_error)
qed

lemma calcAccuracyAndCost_error:
  "calcAccuracyAndCost net dataset lambda = Inl e \<Longrightarrow> e = out_of_bounds"
  by (auto simp: calcAccuracyAndCost_def split: sum.splits prod.splits
      dest: calcAccuracyAndCost_loop_error)

lemma swap_ranges_error: "swap_ranges xs a b ys c = Inl e \<Longrightarrow> e = out_of_bounds"
  by (auto simp: swap_ranges_def Let_def split: if_splits)

lemma optimize_loop_error:
  "optimize_loop upd nBatches batchSize lr reg iBatch training batch st
           = (Some e, training', st') \<Longrightarrow>
   (\<And>b s e. upd b lr reg s = Inl e \<Longrightarrow> P e) \<Longrightarrow> P out_of_bounds \<Longrightarrow> P e"
proof (induction upd nBatches batchSize lr reg iBatch training batch st
    rule: optimize_loop.induct)
  case (1 upd nBatches batchSize lr reg iBatch training batch st)
  note res = "1.prems"(1) and cb = "1.prems"(2) and oob = "1.prems"(3)
  show ?case
  proof (cases "iBatch < nBatches")
    case False
    then show ?thesis
      using res by (simp add: optimize_loop_done)
  next
    case True
    let ?i = "iBatch * batchSize"
    show ?thesis
    proof (cases "swap_ranges training ?i (?i + batchSize) batch 0")
      case (Inl e1)
      then have "e = out_of_bounds"
        using res True swap_ranges_error [OF Inl]
        by (subst (asm) optimize_loop.simps) simp
      then show ?thesis using oob by simp
    next
      case (Inr p1)
      obtain training1 batch1 where p1: "p1 = (training1, batch1)" by (cases p1)
      show ?thesis
      proof (cases "upd batch1 lr reg st")
        case (Inl e2)
        then have "e = e2"
          using res True Inr p1 by (subst (asm) optimize_loop.simps) simp
        then show ?thesis using cb [OF Inl] by simp
      next
        case st2: (Inr st2)
        show ?thesis
        proof (cases "swap_ranges batch1 0 (length batch1) training1 ?i")
          case (Inl e3)
          then have "e = out_of_bounds"
            using res True Inr p1 st2 swap_ranges_error [OF Inl]
            by (subst (asm) optimize_loop.simps) simp
          then show ?thesis using oob by simp
        next
          case p2: (Inr p2)
          obtain batch2 training2 where p2': "p2 = (batch2, training2)" by (cases p2)
          have "optimize_loop upd nBatches batchSize lr reg (Suc iBatch) training2 batch2 st2
                  = (Some e, training', st')"
            using res True Inr p1 st2 p2 p2'
            by (subst (asm) optimize_loop.simps) simp
          then show ?thesis
            using "1.IH" [OF True refl Inr p1 [symmetric] st2 p2 p2' [symmetric]] cb oob
            by blast
        qed
      qed
    qed
  qed
qed

lemma optimize_error:
  assumes cb: "\<And>b s e. upd b lr reg s = Inl e \<Longrightarrow> P e" and oob: "P out_of_bounds"
    and "optimize upd shuffle g training nBatches batchSize lr reg st
           = (Some e, training', st', g')"
  shows "P e"
proof -
  obtain training0 g0 where sh: "shuffle g training = (training0, g0)"
    by (cases "shuffle g training")
  have "\<exists>tr s. optimize_loop upd nBatches batchSize lr reg 0 training0
          (replicate batchSize ([], [])) st = (Some e, tr, s)"
    using assms(3) sh by (auto simp: optimize_def Let_def split: prod.splits)
  then show ?thesis
    using optimize_loop_error [where upd = upd and P = P] cb oob by blast
qed

lemma train_epoch_error:
  assumes "train_epoch shuffle evaluation nBatches batchSize lr reg nTraining nEvaluation
             net training = (Some e, net', training')"
  shows "e = unimplemented \<or> e = out_of_bounds"
proof (cases "optimize updateParameters shuffle (rngEngine net) training nBatches batchSize
                lr reg net")
  case (fields eo tr st g1)
  show ?thesis
  proof (cases eo)
    case None
    then show ?thesis
      using assms fields
      by (auto simp: train_epoch_def Let_def split: sum.splits prod.splits
          dest: calcAccuracyAndCost_error)
  next
    case (Some e1)
    have "e1 = unimplemented \<or> e1 = out_of_bounds"
      by (rule optimize_error [where upd = updateParameters and shuffle = shuffle
            and P = "\<lambda>e. e = unimplemented \<or> e = out_of_bounds",
            OF _ _ fields [unfolded Some]])
         (auto dest: updateParameters_error)
    then show ?thesis
      using assms fields Some by (auto simp: train_epoch_def)
  qed
qed

lemma train_loop_error:
  "train_loop shuffle evaluation nBatches batchSize lr reg nTraining nEvaluation nEpoch
     net training = (Some e, net', training') \<Longrightarrow>
   e = unimplemented \<or> e = out_of_bounds"
proof (induction nEpoch arbitrary: net training)
  case 0
  then show ?case by simp
next
  case (Suc nEpoch)
  obtain eo net1 tr1 where ep:
    "train_epoch shuffle evaluation nBatches batchSize lr reg nTraining nEvaluation
       net training = (eo, net1, tr1)"
    by (cases "train_epoch shuffle evaluation nBatches batchSize lr reg nTraining nEvaluation
       net training")
  show ?case
  proof (cases eo)
    case None
    then show ?thesis using Suc.prems ep Suc.IH [of net1 tr1] by simp
  next
    case (Some e1)
    then have "e1 = e" using Suc.prems ep by simp
    then show ?thesis using train_epoch_error [of shuffle] ep Some by blast
  qed
qed

text \<open>
  C5. For a non-empty training set, \<^verbatim>\<open>Network::train\<close> throws its \<^verbatim>\<open>range_error\<close> exactly
  when the feature vector of the first sample is not as long as \<open>inputSize\<close>, or the
  network has a last layer and the label vector of the first sample is not as long as
  that layer's size. No other path of \<^verbatim>\<open>train\<close> throws a \<^verbatim>\<open>range_error\<close>. When it is
  thrown, the network (layers and metrics) and the training set are as they were.
\<close>

theorem train_ShapeMismatch:
  assumes "training \<noteq> []"
  shows "((\<exists>msg. fst (train shuffle net training evaluation nEpoch batchSize eta lambda)
                   = Some (range_error msg)) \<longleftrightarrow>
            (length (fst (hd training)) \<noteq> inputSize net \<or>
             (layers net \<noteq> [] \<and>
              length (snd (hd training)) \<noteq> getSize (last (layers net))))) \<and>
         ((\<exists>msg. fst (train shuffle net training evaluation nEpoch batchSize eta lambda)
                   = Some (range_error msg)) \<longrightarrow>
            snd (train shuffle net training evaluation nEpoch batchSize eta lambda)
              = (net, training))"
proof -
  obtain front rest where tr: "training = front # rest"
    using assms by (cases training) auto
  let ?r = "train shuffle net training evaluation nEpoch batchSize eta lambda"
  show ?thesis
  proof (cases "length (fst front) \<noteq> inputSize net \<or>
                 (layers net \<noteq> [] \<and> length (snd front) \<noteq> getSize (last (layers net)))")
    case True
    then have "(\<exists>msg. fst ?r = Some (range_error msg)) \<and> snd ?r = (net, training)"
      using tr by (auto simp: train_def)
    then show ?thesis using True tr by simp
  next
    case False
    have "\<not> (\<exists>msg. fst ?r = Some (range_error msg))"
    proof
      assume "\<exists>msg. fst ?r = Some (range_error msg)"
      then obtain msg net' tr' where r: "?r = (Some (range_error msg), net', tr')"
        by (metis fst_conv prod_cases3)
      have "range_error msg = unimplemented \<or> range_error msg = out_of_bounds"
      proof (cases "layers net = [] \<or> batchSize = 0")
        case True
        then show ?thesis using r False tr by (auto simp: train_def split: if_splits)
      next
        case nz: False
        then have "?r = train_loop shuffle evaluation (length training div batchSize) batchSize
             (- eta / real batchSize) (- eta * lambda / real (length training))
             (length training) (length evaluation) nEpoch net training"
          using False tr by (intro train_passes [of training front rest]) auto
        then show ?thesis using r train_loop_error [of shuffle] by metis
      qed
      then show False by simp
    qed
    then show ?thesis using False tr by simp
  qed
qed

theorem train_ShapeMismatch_witness:
  "[([1, 2, 3], [1])] \<noteq> ([] :: DataLabel_Set) \<and>
   (\<exists>msg. fst (train ex_shuffle ex_net [([1, 2, 3], [1])] [] 1 1 (1 / 10) 0)
            = Some (range_error msg)) \<and>
   snd (train ex_shuffle ex_net [([1, 2, 3], [1])] [] 1 1 (1 / 10) 0)
     = (ex_net, [([1, 2, 3], [1])]) \<and>
   \<not> (\<exists>msg. fst (train ex_shuffle ex_net ex_training [] 1 2 (1 / 10) 0)
            = Some (range_error msg))"
proof -
  have h: "[([1, 2, 3], [1])] \<noteq> ([] :: DataLabel_Set)" by simp
  have h': "ex_training \<noteq> []" by (simp add: ex_training_def)
  note bad = train_ShapeMismatch [where shuffle = ex_shuffle and net = ex_net
      and evaluation = "[]" and nEpoch = 1 and batchSize = 1 and eta = "1 / 10" and lambda = 0,
      OF h]
  note good = train_ShapeMismatch [where shuffle = ex_shuffle and net = ex_net
      and evaluation = "[]" and nEpoch = 1 and batchSize = 2 and eta = "1 / 10" and lambda = 0,
      OF h']
  have m: "length (fst (hd [([1, 2, 3], [1 :: real])])) \<noteq> inputSize ex_net"
    by (simp add: ex_net_def)
  have ok: "\<not> (length (fst (hd ex_training)) \<noteq> inputSize ex_net \<or>
             (layers ex_net \<noteq> [] \<and>
              length (snd (hd ex_training)) \<noteq> getSize (last (layers ex_net))))"
    by (simp add: ex_net_def ex_training_def ex_layer_def)
  have a: "\<exists>msg. fst (train ex_shuffle ex_net [([1, 2, 3], [1])] [] 1 1 (1 / 10) 0)
            = Some (range_error msg)"
    using bad m by blast
  then have b: "snd (train ex_shuffle ex_net [([1, 2, 3], [1])] [] 1 1 (1 / 10) 0)
     = (ex_net, [([1, 2, 3], [1])])"
    using bad by blast
  have c: "\<not> (\<exists>msg. fst (train ex_shuffle ex_net ex_training [] 1 2 (1 / 10) 0)
            = Some (range_error msg))"
    using good ok by blast
  show ?thesis using h a b c by blast
qed

section \<open>What the parameter update preserves\<close>

lemma length_backward_pass:
  "backward_pass ts delta = Inr grads \<Longrightarrow> length grads = length ts"
proof (induction ts arbitrary: delta grads)
  case Nil
  then show ?case by simp
next
  case (Cons t ts)
  obtain L a z where t: "t = (L, a, z)" by (cases t)
  from Cons.prems obtain gb gw d' gs where
    "backward_pass ts d' = Inr gs" "grads = gs @ [(gb, gw)]"
    unfolding t by (auto split: sum.splits)
  then show ?case using Cons.IH by simp
qed

lemma length_backPropagate:
  assumes "backPropagate net x y = Inr grads"
  shows "length grads = length (layers net)"
proof -
  obtain zs activations where fp: "forward_pass (layers net) x = (zs, activations)"
    by (cases "forward_pass (layers net) x")
  have l: "length zs = length (layers net)" "length activations = Suc (length (layers net))"
    using length_forward_pass [of "layers net" x] fp by simp_all
  have "length grads = length (rev (zip (layers net) (zip (butlast activations) zs)))"
    using assms fp by (intro length_backward_pass) (simp add: backPropagate_def)
  then show ?thesis using l by simp
qed

lemma length_zero_nablas [simp]: "length (zero_nablas net) = length (layers net)"
  by (simp add: zero_nablas_def)

lemma length_add_nablas [simp]:
  "length (add_nablas nabla delta_nabla) = min (length nabla) (length delta_nabla)"
  by (simp add: add_nablas_def)

lemma length_accumulate_nablas:
  "accumulate_nablas net batch nabla = Inr nabla' \<Longrightarrow> length nabla = length (layers net) \<Longrightarrow>
   length nabla' = length (layers net)"
proof (induction batch arbitrary: nabla)
  case Nil
  then show ?case by simp
next
  case (Cons s batch)
  from Cons.prems(1) obtain dn where
    bp: "backPropagate net (fst s) (snd s) = Inr dn"
    and rest: "accumulate_nablas net batch (add_nablas nabla dn) = Inr nabla'"
    by (auto split: sum.splits)
  have "length (add_nablas nabla dn) = length (layers net)"
    using length_backPropagate [OF bp] Cons.prems(2) by simp
  then show ?case using Cons.IH [OF rest] by simp
qed

lemma updateBiasWeight_fields [simp]:
  "getSize (updateBiasWeight L nb nw lr reg) = getSize L"
  "activationFunction (updateBiasWeight L nb nw lr reg) = activationFunction L"
  by (simp_all add: updateBiasWeight_def)

lemma updateParameters_Inr:
  assumes "updateParameters batch lr reg net = Inr net'"
  shows "map getSize (layers net') = map getSize (layers net) \<and>
         map activationFunction (layers net') = map activationFunction (layers net) \<and>
         inputSize net' = inputSize net \<and> costFunction net' = costFunction net \<and>
         rngEngine net' = rngEngine net \<and> trainingCost net' = trainingCost net \<and>
         trainingAccuracy net' = trainingAccuracy net \<and>
         evaluationCost net' = evaluationCost net \<and>
         evaluationAccuracy net' = evaluationAccuracy net"
proof -
  from assms obtain nabla where
    acc: "accumulate_nablas net batch (zero_nablas net) = Inr nabla"
    and net': "net' = net\<lparr>layers :=
                       map2 (\<lambda>layer (nabla_b, nabla_w).
                               updateBiasWeight layer nabla_b nabla_w lr reg)
                            (layers net) nabla\<rparr>"
    by (auto simp: updateParameters_def split: if_splits sum.splits)
  have len: "length nabla = length (layers net)"
    using length_accumulate_nablas [OF acc] by simp
  have "map getSize (map2 (\<lambda>layer (nabla_b, nabla_w).
                               updateBiasWeight layer nabla_b nabla_w lr reg)
                            (layers net) nabla) = map getSize (layers net)"
    using len by (intro nth_equalityI) (simp_all add: case_prod_beta)
  moreover have "map activationFunction (map2 (\<lambda>layer (nabla_b, nabla_w).
                               updateBiasWeight layer nabla_b nabla_w lr reg)
                            (layers net) nabla) = map activationFunction (layers net)"
    using len by (intro nth_equalityI) (simp_all add: case_prod_beta)
  ultimately show ?thesis using net' by simp
qed

lemma spec_run_batches_updateParameters:
  "spec_run_batches updateParameters lr reg bs net = Inr net' \<Longrightarrow>
   map getSize (layers net') = map getSize (layers net) \<and>
   map activationFunction (layers net') = map activationFunction (layers net) \<and>
   inputSize net' = inputSize net \<and> costFunction net' = costFunction net \<and>
   rngEngine net' = rngEngine net \<and> trainingCost net' = trainingCost net \<and>
   trainingAccuracy net' = trainingAccuracy net \<and>
   evaluationCost net' = evaluationCost net \<and>
   evaluationAccuracy net' = evaluationAccuracy net"
proof (induction bs arbitrary: net)
  case Nil
  then show ?case by simp
next
  case (Cons b bs)
  from Cons.prems obtain net1 where
    u: "updateParameters b lr reg net = Inr net1"
    and r: "spec_run_batches updateParameters lr reg bs net1 = Inr net'"
    by (auto split: sum.splits)
  show ?case using updateParameters_Inr [OF u] Cons.IH [OF r] by simp
qed

lemma last_getSize:
  assumes "map getSize ls' = map getSize ls" "ls \<noteq> []"
  shows "ls' \<noteq> [] \<and> getSize (last ls') = getSize (last ls)"
proof -
  have ne: "ls' \<noteq> []" using assms by auto
  have "last (map getSize ls') = last (map getSize ls)" using assms by simp
  then show ?thesis using ne assms(2) by (simp add: last_map)
qed

section \<open>Networks of Logistic layers never throw in the update\<close>

lemma backward_pass_Logistic:
  "\<forall>t\<in>set ts. activationFunction (fst t) = Logistic \<Longrightarrow> \<exists>grads. backward_pass ts delta = Inr grads"
proof (induction ts arbitrary: delta)
  case Nil
  then show ?case by simp
next
  case (Cons t ts)
  obtain L a z where t: "t = (L, a, z)" by (cases t)
  have "activationFunction L = Logistic" using Cons.prems t by simp
  then obtain gb gw d' where fb: "feedBackward L delta a z = Inr (gb, gw, d')"
    using feedBackward_Logistic [of L delta a z] by (metis prod_cases3)
  obtain gs where "backward_pass ts d' = Inr gs"
    using Cons.IH [of d'] Cons.prems by auto
  then show ?case using fb t by simp
qed

lemma backPropagate_Logistic:
  assumes "\<forall>L\<in>set (layers net). activationFunction L = Logistic"
  shows "\<exists>grads. backPropagate net x y = Inr grads"
proof -
  obtain zs activations where fp: "forward_pass (layers net) x = (zs, activations)"
    by (cases "forward_pass (layers net) x")
  have "\<forall>t\<in>set (rev (zip (layers net) (zip (butlast activations) zs))).
          activationFunction (fst t) = Logistic"
    using assms by (auto dest: set_zip_leftD)
  then show ?thesis
    using fp backward_pass_Logistic by (simp add: backPropagate_def)
qed

lemma accumulate_nablas_Logistic:
  assumes "\<forall>L\<in>set (layers net). activationFunction L = Logistic"
  shows "\<exists>nabla'. accumulate_nablas net batch nabla = Inr nabla'"
proof (induction batch arbitrary: nabla)
  case Nil
  then show ?case by simp
next
  case (Cons s batch)
  obtain dn where "backPropagate net (fst s) (snd s) = Inr dn"
    using backPropagate_Logistic [OF assms] by blast
  then show ?case using Cons.IH by simp
qed

lemma updateParameters_Logistic:
  assumes "\<forall>L\<in>set (layers net). activationFunction L = Logistic" "layers net \<noteq> []"
  shows "\<exists>net'. updateParameters batch lr reg net = Inr net'"
proof -
  obtain nabla where "accumulate_nablas net batch (zero_nablas net) = Inr nabla"
    using accumulate_nablas_Logistic [OF assms(1)] by blast
  then show ?thesis using assms(2) by (simp add: updateParameters_def)
qed

lemma spec_run_batches_Logistic:
  "\<forall>L\<in>set (layers net). activationFunction L = Logistic \<Longrightarrow> layers net \<noteq> [] \<Longrightarrow>
   \<exists>net'. spec_run_batches updateParameters lr reg bs net = Inr net'"
proof (induction bs arbitrary: net)
  case Nil
  then show ?case by simp
next
  case (Cons b bs)
  obtain net1 where u: "updateParameters b lr reg net = Inr net1"
    using updateParameters_Logistic [OF Cons.prems] by blast
  have m: "map activationFunction (layers net1) = map activationFunction (layers net)"
    using updateParameters_Inr [OF u] by blast
  then have im: "activationFunction ` set (layers net1) = activationFunction ` set (layers net)"
    by (metis set_map)
  have a: "\<forall>L\<in>set (layers net1). activationFunction L = Logistic"
  proof
    fix L assume "L \<in> set (layers net1)"
    then have "activationFunction L \<in> activationFunction ` set (layers net)"
      using im by blast
    then show "activationFunction L = Logistic" using Cons.prems(1) by auto
  qed
  have "length (map activationFunction (layers net1)) = length (map activationFunction (layers net))"
    using m by simp
  then have b: "layers net1 \<noteq> []" using Cons.prems(2) by auto
  show ?case using u Cons.IH [OF a b] by simp
qed

lemma optimize_Logistic:
  assumes "\<forall>L\<in>set (layers net). activationFunction L = Logistic" "layers net \<noteq> []"
    and "length (fst (shuffle g training)) = length training"
    and "nBatches * batchSize \<le> length training"
  shows "fst (optimize updateParameters shuffle g training nBatches batchSize lr reg net) = None"
proof -
  obtain t0 g0 where sh: "shuffle g training = (t0, g0)" by (cases "shuffle g training")
  have bd: "nBatches * batchSize \<le> length t0" using assms(3,4) sh by simp
  obtain net' where
    "spec_run_batches updateParameters lr reg
       (map (spec_batch t0 batchSize) [0..<nBatches]) net = Inr net'"
    using spec_run_batches_Logistic [OF assms(1,2)] by blast
  from optimize_Inr [where shuffle = shuffle, OF sh bd this]
  show ?thesis by simp
qed

section \<open>Label expansion and evaluation\<close>

lemma prediction2output_single:
  assumes "layers net \<noteq> []"
  shows "prediction2output net [p] =
     (if 0 \<le> static_cast_PREDICTION p \<and>
         static_cast_PREDICTION p < int (getSize (last (layers net)))
      then Inr ((VectorXd_Zero (getSize (last (layers net))))[nat (static_cast_PREDICTION p) := 1])
      else Inl out_of_bounds)"
  using assms by (simp add: prediction2output_def Let_def VectorXd_Zero_def)

lemma calcAccuracyAndCost_loop_bad:
  assumes "layers net \<noteq> []" "sample \<in> set dataset" "snd sample = [p]"
    "\<not> (0 \<le> static_cast_PREDICTION p \<and>
        static_cast_PREDICTION p < int (getSize (last (layers net))))"
  shows "calcAccuracyAndCost_loop net dataset acc = Inl out_of_bounds"
  using assms(2)
proof (induction dataset arbitrary: acc)
  case Nil
  then show ?case by simp
next
  case (Cons s dataset)
  obtain correct cost where acc: "acc = (correct, cost)" by (cases acc)
  show ?case
  proof (cases "calcAccuracyAndCost_loop net (s # dataset) acc")
    case (Inl e)
    then show ?thesis using calcAccuracyAndCost_loop_error by blast
  next
    case (Inr r)
    have "s \<noteq> sample"
    proof
      assume "s = sample"
      then have "prediction2output net (snd s) = Inl out_of_bounds"
        using assms by (simp add: prediction2output_single)
      then show False using Inr unfolding acc by (simp add: Let_def split: sum.splits)
    qed
    then have "sample \<in> set dataset" using Cons.prems by auto
    then have "\<And>acc'. calcAccuracyAndCost_loop net dataset acc' = Inl out_of_bounds"
      using Cons.IH by blast
    then show ?thesis using Inr unfolding acc by (simp add: Let_def split: sum.splits)
  qed
qed

lemma calcAccuracyAndCost_bad:
  assumes "layers net \<noteq> []" "sample \<in> set dataset" "snd sample = [p]"
    "\<not> (0 \<le> static_cast_PREDICTION p \<and>
        static_cast_PREDICTION p < int (getSize (last (layers net))))"
  shows "calcAccuracyAndCost net dataset lambda = Inl out_of_bounds"
  using calcAccuracyAndCost_loop_bad [OF assms] by (simp add: calcAccuracyAndCost_def)

lemma train_epoch_calc_training:
  assumes "optimize updateParameters shuffle (rngEngine net) training nBatches batchSize
             lr reg net = (None, tr', net', g')"
    and "calcAccuracyAndCost (net'\<lparr>rngEngine := g'\<rparr>) tr' 0 = Inl e"
  shows "train_epoch shuffle evaluation nBatches batchSize lr reg nTraining nEvaluation
           net training = (Some e, net'\<lparr>rngEngine := g'\<rparr>, tr')"
  using assms by (simp add: train_epoch_def)

lemma train_epoch_calc_evaluation:
  assumes "optimize updateParameters shuffle (rngEngine net) training nBatches batchSize
             lr reg net = (None, tr', net', g')"
    and "calcAccuracyAndCost (net'\<lparr>rngEngine := g'\<rparr>) tr' 0 = Inr r"
    and "calcAccuracyAndCost (net'\<lparr>rngEngine := g'\<rparr>) evaluation 0 = Inl e"
  shows "train_epoch shuffle evaluation nBatches batchSize lr reg nTraining nEvaluation
           net training = (Some e, net'\<lparr>rngEngine := g'\<rparr>, tr')"
proof -
  obtain a b where r: "r = (a, b)" by (cases r)
  show ?thesis using assms unfolding r by (simp add: train_epoch_def)
qed

lemma train_epoch_bad:
  assumes ne: "layers net \<noteq> []"
    and perm: "mset (fst (shuffle (rngEngine net) training)) = mset training"
    and bd: "nBatches * batchSize \<le> length training"
    and sample: "sample \<in> set training \<union> set evaluation" "snd sample = [p]"
    and bad: "\<not> (0 \<le> static_cast_PREDICTION p \<and>
        static_cast_PREDICTION p < int (getSize (last (layers net))))"
    and ok: "fst (optimize updateParameters shuffle (rngEngine net) training nBatches batchSize
               lr reg net) = None"
  shows "fst (train_epoch shuffle evaluation nBatches batchSize lr reg nTraining nEvaluation
           net training) = Some out_of_bounds"
proof -
  obtain t0 g0 where sh: "shuffle (rngEngine net) training = (t0, g0)"
    by (cases "shuffle (rngEngine net) training")
  have p0: "mset t0 = mset training" using perm sh by simp
  have "size (mset t0) = size (mset training)" using p0 by simp
  then have "length t0 = length training" by simp
  then have bd0: "nBatches * batchSize \<le> length t0" using bd by simp
  obtain eo tr' net' g' where
    o': "optimize updateParameters shuffle (rngEngine net) training nBatches batchSize
               lr reg net = (eo, tr', net', g')"
    by (cases "optimize updateParameters shuffle (rngEngine net) training nBatches batchSize
               lr reg net")
  then have "eo = None" using ok by simp
  then have o: "optimize updateParameters shuffle (rngEngine net) training nBatches batchSize
               lr reg net = (None, tr', net', g')"
    using o' by simp
  have tr': "tr' = t0"
    and run: "spec_run_batches updateParameters lr reg
                (map (spec_batch t0 batchSize) [0..<nBatches]) net = Inr net'"
    using o optimize_None_iff [where shuffle = shuffle and upd = updateParameters, OF sh bd0]
    by blast+
  define net1 where "net1 = net'\<lparr>rngEngine := g'\<rparr>"
  have "map getSize (layers net') = map getSize (layers net)"
    using spec_run_batches_updateParameters [OF run] by blast
  then have sz: "map getSize (layers net1) = map getSize (layers net)"
    by (simp add: net1_def)
  have ne1: "layers net1 \<noteq> []"
    and last1: "getSize (last (layers net1)) = getSize (last (layers net))"
    using last_getSize [OF sz ne] by blast+
  have bad1: "\<not> (0 \<le> static_cast_PREDICTION p \<and>
        static_cast_PREDICTION p < int (getSize (last (layers net1))))"
    using bad last1 by simp
  have "set tr' = set training" using p0 tr' mset_eq_setD by blast
  then consider "sample \<in> set tr'" | "sample \<in> set evaluation" using sample(1) by blast
  then show ?thesis
  proof cases
    case 1
    have "calcAccuracyAndCost net1 tr' 0 = Inl out_of_bounds"
      by (rule calcAccuracyAndCost_bad [OF ne1 1 sample(2) bad1])
    then show ?thesis
      using train_epoch_calc_training [OF o] unfolding net1_def by simp
  next
    case 2
    have e: "calcAccuracyAndCost net1 evaluation 0 = Inl out_of_bounds"
      by (rule calcAccuracyAndCost_bad [OF ne1 2 sample(2) bad1])
    show ?thesis
    proof (cases "calcAccuracyAndCost net1 tr' 0")
      case (Inl e1)
      then have "e1 = out_of_bounds" by (rule calcAccuracyAndCost_error)
      then show ?thesis
        using train_epoch_calc_training [OF o] Inl unfolding net1_def by simp
    next
      case (Inr r)
      then show ?thesis
        using train_epoch_calc_evaluation [OF o] e unfolding net1_def by simp
    qed
  qed
qed

text \<open>
  C10. \<^verbatim>\<open>prediction2output\<close> checks no bound. For a network with a last layer and a
  label of one element \<open>p\<close>, it returns a vector exactly when \<open>p\<close>, truncated to an
  integer, lies in \<open>[0, size of the last layer)\<close>, and then the zero vector with a 1 at
  that index; otherwise the index access is out of bounds. A data set with a sample
  whose label is outside this range makes \<^verbatim>\<open>calcAccuracyAndCost\<close> run into an access out
  of bounds, and so does the evaluation of an epoch of \<^verbatim>\<open>train\<close> whose optimizer pass
  returned, when the sample is in the training or in the evaluation set.
\<close>

theorem prediction2output_bounds:
  assumes ne: "layers net \<noteq> []"
  shows "((\<exists>output. prediction2output net [p] = Inr output) \<longleftrightarrow>
            (0 \<le> static_cast_PREDICTION p \<and>
             static_cast_PREDICTION p < int (getSize (last (layers net))))) \<and>
         (0 \<le> static_cast_PREDICTION p \<and>
          static_cast_PREDICTION p < int (getSize (last (layers net))) \<longrightarrow>
            prediction2output net [p] =
              Inr ((VectorXd_Zero (getSize (last (layers net))))
                     [nat (static_cast_PREDICTION p) := 1])) \<and>
         (\<not> (0 \<le> static_cast_PREDICTION p \<and>
             static_cast_PREDICTION p < int (getSize (last (layers net)))) \<longrightarrow>
            prediction2output net [p] = Inl out_of_bounds \<and>
            (sample \<in> set dataset \<and> snd sample = [p] \<longrightarrow>
               calcAccuracyAndCost net dataset lambda = Inl out_of_bounds) \<and>
            (sample \<in> set training \<union> set evaluation \<and> snd sample = [p] \<and>
             mset (fst (shuffle (rngEngine net) training)) = mset training \<and>
             nBatches * batchSize \<le> length training \<and>
             fst (optimize updateParameters shuffle (rngEngine net) training nBatches batchSize
                    lr reg net) = None \<longrightarrow>
               fst (train_epoch shuffle evaluation nBatches batchSize lr reg nTraining
                      nEvaluation net training) = Some out_of_bounds))"
proof -
  let ?ok = "0 \<le> static_cast_PREDICTION p \<and>
             static_cast_PREDICTION p < int (getSize (last (layers net)))"
  have a: "(\<exists>output. prediction2output net [p] = Inr output) \<longleftrightarrow> ?ok"
    by (simp add: prediction2output_single [OF ne])
  have b: "?ok \<longrightarrow> prediction2output net [p] =
              Inr ((VectorXd_Zero (getSize (last (layers net))))
                     [nat (static_cast_PREDICTION p) := 1])"
    by (simp add: prediction2output_single [OF ne])
  have c: "\<not> ?ok \<longrightarrow> prediction2output net [p] = Inl out_of_bounds"
    by (simp add: prediction2output_single [OF ne])
  have d: "calcAccuracyAndCost net dataset lambda = Inl out_of_bounds"
    if "\<not> ?ok" "sample \<in> set dataset" "snd sample = [p]"
    using calcAccuracyAndCost_bad [OF ne that(2,3) that(1)] .
  have e: "fst (train_epoch shuffle evaluation nBatches batchSize lr reg nTraining
                      nEvaluation net training) = Some out_of_bounds"
    if "\<not> ?ok" "sample \<in> set training \<union> set evaluation" "snd sample = [p]"
      "mset (fst (shuffle (rngEngine net) training)) = mset training"
      "nBatches * batchSize \<le> length training"
      "fst (optimize updateParameters shuffle (rngEngine net) training nBatches batchSize
                    lr reg net) = None"
    using train_epoch_bad [where shuffle = shuffle, OF ne that(4,5,2,3,1,6)] .
  show ?thesis using a b c d e by blast
qed

theorem prediction2output_bounds_witness:
  "layers ex_net \<noteq> [] \<and>
   prediction2output ex_net [0] = Inr [1] \<and>
   prediction2output ex_net [1] = Inl out_of_bounds \<and>
   calcAccuracyAndCost ex_net ex_training 0 = Inl out_of_bounds \<and>
   fst (train_epoch ex_shuffle [] 2 2 (- (1 / 20)) 0 5 0 ex_net ex_training)
     = Some out_of_bounds"
proof -
  have ne: "layers ex_net \<noteq> []" by (simp add: ex_net_def)
  have sz: "getSize (last (layers ex_net)) = 1" by (simp add: ex_net_def ex_layer_def)
  have c0: "static_cast_PREDICTION 0 = 0" and c1: "static_cast_PREDICTION 1 = 1"
    by (simp_all add: static_cast_PREDICTION_def)
  have ok0: "0 \<le> static_cast_PREDICTION 0 \<and>
             static_cast_PREDICTION 0 < int (getSize (last (layers ex_net)))"
    using sz c0 by simp
  have bad1: "\<not> (0 \<le> static_cast_PREDICTION 1 \<and>
             static_cast_PREDICTION 1 < int (getSize (last (layers ex_net))))"
    using sz c1 by simp
  note good = prediction2output_bounds [OF ne, where p = 0]
  note bad = prediction2output_bounds [OF ne, where p = 1 and sample = "([1, 0], [1])"
      and dataset = ex_training and lambda = 0 and training = ex_training
      and evaluation = "[]" and shuffle = ex_shuffle and nBatches = 2 and batchSize = 2
      and lr = "- (1 / 20)" and reg = 0 and nTraining = 5 and nEvaluation = 0]
  have r0: "prediction2output ex_net [0] =
              Inr ((VectorXd_Zero (getSize (last (layers ex_net))))
                     [nat (static_cast_PREDICTION 0) := 1])"
    using good ok0 by blast
  have v0: "(VectorXd_Zero (getSize (last (layers ex_net))))[nat (static_cast_PREDICTION 0) := 1]
              = [1]"
    using sz c0 by (simp add: VectorXd_Zero_def)
  have r1: "prediction2output ex_net [1] = Inl out_of_bounds"
    using bad bad1 by blast
  have mem: "([1, 0], [1]) \<in> set ex_training" "snd ([1, 0] :: VectorXd, [1 :: real]) = [1]"
    by (simp_all add: ex_training_def)
  have r2: "calcAccuracyAndCost ex_net ex_training 0 = Inl out_of_bounds"
    using bad bad1 mem by blast
  have perm: "mset (fst (ex_shuffle (rngEngine ex_net) ex_training)) = mset ex_training"
    by (simp add: ex_shuffle_def)
  have bd: "2 * 2 \<le> length ex_training" by (simp add: ex_training_def)
  have lg: "\<forall>L\<in>set (layers ex_net). activationFunction L = Logistic"
    by (simp add: ex_net_def ex_layer_def)
  have len: "length (fst (ex_shuffle (rngEngine ex_net) ex_training)) = length ex_training"
    by (simp add: ex_shuffle_def)
  have opt: "fst (optimize updateParameters ex_shuffle (rngEngine ex_net) ex_training 2 2
                (- (1 / 20)) 0 ex_net) = None"
    by (rule optimize_Logistic [where shuffle = ex_shuffle, OF lg ne len bd])
  have mem': "([1, 0], [1]) \<in> set ex_training \<union> set []" using mem by simp
  have r3: "fst (train_epoch ex_shuffle [] 2 2 (- (1 / 20)) 0 5 0 ex_net ex_training)
     = Some out_of_bounds"
    using bad bad1 mem' mem(2) perm bd opt by blast
  show ?thesis using ne r0 v0 r1 r2 r3 by simp
qed

section \<open>Parameter update: results\<close>

lemma accumulate_nablas_foldl:
  "map (\<lambda>sample. backPropagate net (fst sample) (snd sample)) batch = map Inr grads \<Longrightarrow>
   accumulate_nablas net batch nabla = Inr (foldl add_nablas nabla grads)"
proof (induction batch arbitrary: grads nabla)
  case Nil
  then show ?case by simp
next
  case (Cons s batch)
  from Cons.prems obtain g gs where
    grads: "grads = g # gs"
    and g: "backPropagate net (fst s) (snd s) = Inr g"
    and gs: "map (\<lambda>sample. backPropagate net (fst sample) (snd sample)) batch = map Inr gs"
    by (cases grads) auto
  show ?case using g Cons.IH [OF gs] grads by simp
qed

lemma nth_add_nablas:
  "i < length nabla \<Longrightarrow> i < length dn \<Longrightarrow>
   add_nablas nabla dn ! i =
     (vec_add (fst (nabla ! i)) (fst (dn ! i)), mat_add (snd (nabla ! i)) (snd (dn ! i)))"
  by (simp add: add_nablas_def case_prod_beta)

lemma foldl_add_nablas:
  "\<forall>g\<in>set grads. length g = n \<Longrightarrow> length nabla = n \<Longrightarrow>
   length (foldl add_nablas nabla grads) = n \<and>
   (\<forall>i<n. foldl add_nablas nabla grads ! i =
      (foldl vec_add (fst (nabla ! i)) (map (\<lambda>g. fst (g ! i)) grads),
       foldl mat_add (snd (nabla ! i)) (map (\<lambda>g. snd (g ! i)) grads)))"
proof (induction grads arbitrary: nabla)
  case Nil
  then show ?case by simp
next
  case (Cons g grads)
  have lg: "length g = n" using Cons.prems(1) by simp
  have l1: "length (add_nablas nabla g) = n" using lg Cons.prems(2) by simp
  have rest: "\<forall>g\<in>set grads. length g = n" using Cons.prems(1) by simp
  note IH = Cons.IH [OF rest l1]
  show ?case
    using IH lg Cons.prems(2) by (simp add: nth_add_nablas)
qed

lemma nth_zero_nablas:
  "i < length (layers net) \<Longrightarrow>
   zero_nablas net ! i =
     (VectorXd_Zero (getSize (layers net ! i)),
      MatrixXd_Zero (getSize (layers net ! i)) ((inputSize net # map getSize (layers net)) ! i))"
  by (simp add: zero_nablas_def)

lemma grads_lengths:
  assumes "map (\<lambda>sample. backPropagate net (fst sample) (snd sample)) batch = map Inr grads"
  shows "\<forall>g\<in>set grads. length g = length (layers net)"
proof
  fix g assume "g \<in> set grads"
  then obtain k where k: "k < length grads" "grads ! k = g"
    by (auto simp: in_set_conv_nth)
  have lb: "length batch = length grads"
    using assms by (metis length_map)
  have "map (\<lambda>sample. backPropagate net (fst sample) (snd sample)) batch ! k = map Inr grads ! k"
    using assms by simp
  then have "backPropagate net (fst (batch ! k)) (snd (batch ! k)) = Inr g"
    using k lb by simp
  then show "length g = length (layers net)" by (rule length_backPropagate)
qed

lemma train_loop_one:
  "train_loop shuffle evaluation nBatches batchSize lr reg nTraining nEvaluation (Suc 0)
     net training =
   train_epoch shuffle evaluation nBatches batchSize lr reg nTraining nEvaluation net training"
proof (cases "train_epoch shuffle evaluation nBatches batchSize lr reg nTraining nEvaluation
     net training")
  case (fields eo net' tr')
  then show ?thesis by (cases eo) simp_all
qed

lemma train_epoch_layers:
  assumes "optimize updateParameters shuffle (rngEngine net) training nBatches batchSize
             lr reg net = (None, tr', net', g')"
  shows "layers (fst (snd (train_epoch shuffle evaluation nBatches batchSize lr reg
           nTraining nEvaluation net training))) = layers net'"
proof (cases "calcAccuracyAndCost (net'\<lparr>rngEngine := g'\<rparr>) tr' 0")
  case (Inl e)
  then show ?thesis using assms by (simp add: train_epoch_def)
next
  case (Inr r)
  obtain a b where r: "r = (a, b)" by (cases r)
  show ?thesis
  proof (cases "calcAccuracyAndCost (net'\<lparr>rngEngine := g'\<rparr>) evaluation 0")
    case (Inl e)
    then show ?thesis using assms Inr r by (simp add: train_epoch_def)
  next
    case r2: (Inr r2)
    obtain c d where "r2 = (c, d)" by (cases r2)
    then show ?thesis using assms Inr r r2 by (simp add: train_epoch_def)
  qed
qed

lemma train_one_epoch_layers:
  assumes ne: "training \<noteq> []" "layers net \<noteq> []"
    and chk: "length (fst (hd training)) = inputSize net"
      "length (snd (hd training)) = getSize (last (layers net))"
    and pos: "0 < batchSize"
    and len: "length (fst (shuffle (rngEngine net) training)) = length training"
    and run: "spec_run_batches updateParameters (- eta / real batchSize)
                (- eta * lambda / real (length training))
                (map (spec_batch (fst (shuffle (rngEngine net) training)) batchSize)
                     [0..<length training div batchSize]) net = Inr net1"
  shows "layers (fst (snd (train shuffle net training evaluation (Suc 0) batchSize eta lambda)))
           = layers net1"
proof -
  obtain front rest where tr: "training = front # rest"
    using ne(1) by (cases training) auto
  obtain t0 g0 where sh: "shuffle (rngEngine net) training = (t0, g0)"
    by (cases "shuffle (rngEngine net) training")
  have bd: "length training div batchSize * batchSize \<le> length t0"
    using len sh by simp
  have run': "spec_run_batches updateParameters (- eta / real batchSize)
                (- eta * lambda / real (length training))
                (map (spec_batch t0 batchSize) [0..<length training div batchSize]) net = Inr net1"
    using run sh by simp
  have o: "optimize updateParameters shuffle (rngEngine net) training
             (length training div batchSize) batchSize (- eta / real batchSize)
             (- eta * lambda / real (length training)) net = (None, t0, net1, g0)"
    by (rule optimize_Inr [where shuffle = shuffle, OF sh bd run'])
  have c1: "length (fst front) = inputSize net"
    and c2: "length (snd front) = getSize (last (layers net))"
    using chk tr by simp_all
  show ?thesis
    unfolding train_passes [OF tr c1 ne(2) c2 pos] train_loop_one
    by (rule train_epoch_layers [OF o])
qed

text \<open>
  C2. When \<^verbatim>\<open>backPropagate\<close>, at the parameters the network has before the batch, returns
  the gradients \<open>grads ! k\<close> for the \<open>k\<close>-th sample of the batch, \<^verbatim>\<open>updateParameters\<close>
  replaces every layer \<open>i\<close> by \<^verbatim>\<open>updateBiasWeight\<close> of that layer, once, with the two
  accumulators of the layer: the zero vector of the layer's size and the zero matrix of
  the layer's size by the size before it, to which the gradients of the samples have
  been added one after the other. The sums are passed as they are, with the two ratios
  unchanged. And \<^verbatim>\<open>train\<close> passes \<open>- learningRate / batchSize\<close> as the learning-rate
  ratio: after one epoch the layers are those that \<^verbatim>\<open>updateParameters\<close> with this ratio
  produces over the batches of the shuffled training set.
\<close>

theorem updateParameters_spec:
  assumes ne: "layers net \<noteq> []"
    and bp: "map (\<lambda>sample. backPropagate net (fst sample) (snd sample)) batch = map Inr grads"
  shows "updateParameters batch lrRatio regRatio net =
           Inr (net\<lparr>layers :=
                  map (\<lambda>i. updateBiasWeight (layers net ! i)
                             (foldl vec_add (VectorXd_Zero (getSize (layers net ! i)))
                                (map (\<lambda>g. fst (g ! i)) grads))
                             (foldl mat_add
                                (MatrixXd_Zero (getSize (layers net ! i))
                                   ((inputSize net # map getSize (layers net)) ! i))
                                (map (\<lambda>g. snd (g ! i)) grads))
                             lrRatio regRatio)
                      [0..<length (layers net)]\<rparr>) \<and>
         (training \<noteq> [] \<and> length (fst (hd training)) = inputSize net \<and>
          length (snd (hd training)) = getSize (last (layers net)) \<and> 0 < batchSize \<and>
          length (fst (shuffle (rngEngine net) training)) = length training \<and>
          spec_run_batches updateParameters (- learningRate / real batchSize)
            (- learningRate * lambda / real (length training))
            (map (spec_batch (fst (shuffle (rngEngine net) training)) batchSize)
                 [0..<length training div batchSize]) net = Inr net1 \<longrightarrow>
          layers (fst (snd (train shuffle net training evaluation (Suc 0) batchSize
                              learningRate lambda))) = layers net1)"
proof -
  let ?n = "length (layers net)"
  let ?nabla = "foldl add_nablas (zero_nablas net) grads"
  have acc: "accumulate_nablas net batch (zero_nablas net) = Inr ?nabla"
    by (rule accumulate_nablas_foldl [OF bp])
  have fl: "length ?nabla = ?n \<and>
     (\<forall>i<?n. ?nabla ! i =
        (foldl vec_add (fst (zero_nablas net ! i)) (map (\<lambda>g. fst (g ! i)) grads),
         foldl mat_add (snd (zero_nablas net ! i)) (map (\<lambda>g. snd (g ! i)) grads)))"
    by (rule foldl_add_nablas [OF grads_lengths [OF bp]]) simp
  have "map2 (\<lambda>layer (nabla_b, nabla_w).
                 updateBiasWeight layer nabla_b nabla_w lrRatio regRatio)
             (layers net) ?nabla =
        map (\<lambda>i. updateBiasWeight (layers net ! i)
                             (foldl vec_add (VectorXd_Zero (getSize (layers net ! i)))
                                (map (\<lambda>g. fst (g ! i)) grads))
                             (foldl mat_add
                                (MatrixXd_Zero (getSize (layers net ! i))
                                   ((inputSize net # map getSize (layers net)) ! i))
                                (map (\<lambda>g. snd (g ! i)) grads))
                             lrRatio regRatio)
                      [0..<?n]"
    using fl by (intro nth_equalityI) (simp_all add: nth_zero_nablas)
  then have a: "updateParameters batch lrRatio regRatio net =
           Inr (net\<lparr>layers :=
                  map (\<lambda>i. updateBiasWeight (layers net ! i)
                             (foldl vec_add (VectorXd_Zero (getSize (layers net ! i)))
                                (map (\<lambda>g. fst (g ! i)) grads))
                             (foldl mat_add
                                (MatrixXd_Zero (getSize (layers net ! i))
                                   ((inputSize net # map getSize (layers net)) ! i))
                                (map (\<lambda>g. snd (g ! i)) grads))
                             lrRatio regRatio)
                      [0..<?n]\<rparr>)"
    using ne acc by (simp add: updateParameters_def)
  have b: "layers (fst (snd (train shuffle net training evaluation (Suc 0) batchSize
                              learningRate lambda))) = layers net1"
    if "training \<noteq> []" "length (fst (hd training)) = inputSize net"
       "length (snd (hd training)) = getSize (last (layers net))" "0 < batchSize"
       "length (fst (shuffle (rngEngine net) training)) = length training"
       "spec_run_batches updateParameters (- learningRate / real batchSize)
            (- learningRate * lambda / real (length training))
            (map (spec_batch (fst (shuffle (rngEngine net) training)) batchSize)
                 [0..<length training div batchSize]) net = Inr net1"
    by (rule train_one_epoch_layers [where shuffle = shuffle, OF that(1) ne that(2-6)])
  show ?thesis using a b by blast
qed

lemma ex_backPropagate:
  "backPropagate ex_net [0, 0] [1] = Inr [([- (1 / 8)], \<lparr>rows = 1, cols = 2, data = [[0, 0]]\<rparr>)]"
  by (simp add: backPropagate_def ex_net_def ex_layer_def feedForward_az_def feedBackward_def
      mat_vec_def dot_def vec_add_def vec_sub_def cwiseProduct_def outer_def transpose_m_def
      Logistic_calculate_def Logistic_calculate_derivative_def
      Quadratic_calculate_derivative_def Let_def)

theorem updateParameters_spec_witness:
  "layers ex_net \<noteq> [] \<and>
   map (\<lambda>sample. backPropagate ex_net (fst sample) (snd sample))
       [([0, 0], [1]), ([0, 0], [1])] =
     map Inr [[([- (1 / 8)], \<lparr>rows = 1, cols = 2, data = [[0, 0]]\<rparr>)],
              [([- (1 / 8)], \<lparr>rows = 1, cols = 2, data = [[0, 0]]\<rparr>)]] \<and>
   updateParameters [([0, 0], [1]), ([0, 0], [1])] (- 1) 0 ex_net =
     Inr (ex_net\<lparr>layers :=
            [\<lparr>getSize = 1, activationFunction = Logistic, bias = [1 / 4],
              weight = \<lparr>rows = 1, cols = 2, data = [[1, 2]]\<rparr>\<rparr>]\<rparr>) \<and>
   ex_training \<noteq> [] \<and> length (fst (hd ex_training)) = inputSize ex_net \<and>
   length (snd (hd ex_training)) = getSize (last (layers ex_net)) \<and> (0::nat) < 2 \<and>
   length (fst (ex_shuffle (rngEngine ex_net) ex_training)) = length ex_training \<and>
   (\<exists>net1. spec_run_batches updateParameters (- (1 / 10) / real 2)
            (- (1 / 10) * 0 / real (length ex_training))
            (map (spec_batch (fst (ex_shuffle (rngEngine ex_net) ex_training)) 2)
                 [0..<length ex_training div 2]) ex_net = Inr net1 \<and>
          layers (fst (snd (train ex_shuffle ex_net ex_training [] (Suc 0) 2 (1 / 10) 0)))
            = layers net1)"
proof -
  let ?batch = "[([0, 0], [1]), ([0, 0], [1])] :: DataLabel_Set"
  let ?g = "[([- (1 / 8)], \<lparr>rows = 1, cols = 2, data = [[0, 0]]\<rparr>)] :: (VectorXd \<times> MatrixXd) list"
  have ne: "layers ex_net \<noteq> []" by (simp add: ex_net_def)
  have bp: "map (\<lambda>sample. backPropagate ex_net (fst sample) (snd sample)) ?batch
              = map Inr [?g, ?g]"
    by (simp add: ex_backPropagate)
  have lg: "\<forall>L\<in>set (layers ex_net). activationFunction L = Logistic"
    by (simp add: ex_net_def ex_layer_def)
  obtain net1 where run:
    "spec_run_batches updateParameters (- (1 / 10) / real 2)
            (- (1 / 10) * 0 / real (length ex_training))
            (map (spec_batch (fst (ex_shuffle (rngEngine ex_net) ex_training)) 2)
                 [0..<length ex_training div 2]) ex_net = Inr net1"
    using spec_run_batches_Logistic [OF lg ne] by blast
  have h: "ex_training \<noteq> []" "length (fst (hd ex_training)) = inputSize ex_net"
    "length (snd (hd ex_training)) = getSize (last (layers ex_net))" "(0::nat) < 2"
    "length (fst (ex_shuffle (rngEngine ex_net) ex_training)) = length ex_training"
    by (simp_all add: ex_training_def ex_net_def ex_layer_def ex_shuffle_def)
  note spec = updateParameters_spec [OF ne bp, where lrRatio = "- 1" and regRatio = 0
      and training = ex_training and shuffle = ex_shuffle and batchSize = 2
      and learningRate = "1 / 10" and lambda = 0 and ?net1.0 = net1 and evaluation = "[]"]
  have "updateParameters ?batch (- 1) 0 ex_net =
          Inr (ex_net\<lparr>layers :=
                  map (\<lambda>i. updateBiasWeight (layers ex_net ! i)
                             (foldl vec_add (VectorXd_Zero (getSize (layers ex_net ! i)))
                                (map (\<lambda>g. fst (g ! i)) [?g, ?g]))
                             (foldl mat_add
                                (MatrixXd_Zero (getSize (layers ex_net ! i))
                                   ((inputSize ex_net # map getSize (layers ex_net)) ! i))
                                (map (\<lambda>g. snd (g ! i)) [?g, ?g]))
                             (- 1) 0)
                      [0..<length (layers ex_net)]\<rparr>)"
    using spec by blast
  also have "map (\<lambda>i. updateBiasWeight (layers ex_net ! i)
                             (foldl vec_add (VectorXd_Zero (getSize (layers ex_net ! i)))
                                (map (\<lambda>g. fst (g ! i)) [?g, ?g]))
                             (foldl mat_add
                                (MatrixXd_Zero (getSize (layers ex_net ! i))
                                   ((inputSize ex_net # map getSize (layers ex_net)) ! i))
                                (map (\<lambda>g. snd (g ! i)) [?g, ?g]))
                             (- 1) 0)
                      [0..<length (layers ex_net)] =
       [\<lparr>getSize = 1, activationFunction = Logistic, bias = [1 / 4],
              weight = \<lparr>rows = 1, cols = 2, data = [[1, 2]]\<rparr>\<rparr>]"
    by (simp add: ex_net_def ex_layer_def updateBiasWeight_def VectorXd_Zero_def
        MatrixXd_Zero_def vec_add_def vec_scale_def mat_add_def mat_scale_def
        eval_nat_numeral)
  finally have u: "updateParameters ?batch (- 1) 0 ex_net =
     Inr (ex_net\<lparr>layers :=
            [\<lparr>getSize = 1, activationFunction = Logistic, bias = [1 / 4],
              weight = \<lparr>rows = 1, cols = 2, data = [[1, 2]]\<rparr>\<rparr>]\<rparr>)" .
  have t: "layers (fst (snd (train ex_shuffle ex_net ex_training [] (Suc 0) 2 (1 / 10) 0)))
            = layers net1"
    using spec h run by blast
  show ?thesis using ne bp u h run t by blast
qed

section \<open>Batches of an epoch\<close>

lemma train_epoch_training:
  assumes "optimize updateParameters shuffle (rngEngine net) training nBatches batchSize
             lr reg net = (None, tr', net', g')"
  shows "snd (snd (train_epoch shuffle evaluation nBatches batchSize lr reg
           nTraining nEvaluation net training)) = tr'"
proof (cases "calcAccuracyAndCost (net'\<lparr>rngEngine := g'\<rparr>) tr' 0")
  case (Inl e)
  then show ?thesis using assms by (simp add: train_epoch_def)
next
  case (Inr r)
  obtain a b where r: "r = (a, b)" by (cases r)
  show ?thesis
  proof (cases "calcAccuracyAndCost (net'\<lparr>rngEngine := g'\<rparr>) evaluation 0")
    case (Inl e)
    then show ?thesis using assms Inr r by (simp add: train_epoch_def)
  next
    case r2: (Inr r2)
    obtain c d where "r2 = (c, d)" by (cases r2)
    then show ?thesis using assms Inr r r2 by (simp add: train_epoch_def)
  qed
qed

lemma train_one_epoch_training:
  assumes ne: "training \<noteq> []" "layers net \<noteq> []"
    and chk: "length (fst (hd training)) = inputSize net"
      "length (snd (hd training)) = getSize (last (layers net))"
    and pos: "0 < batchSize"
    and len: "length (fst (shuffle (rngEngine net) training)) = length training"
    and run: "spec_run_batches updateParameters (- eta / real batchSize)
                (- eta * lambda / real (length training))
                (map (spec_batch (fst (shuffle (rngEngine net) training)) batchSize)
                     [0..<length training div batchSize]) net = Inr net1"
  shows "snd (snd (train shuffle net training evaluation (Suc 0) batchSize eta lambda))
           = fst (shuffle (rngEngine net) training)"
proof -
  obtain front rest where tr: "training = front # rest"
    using ne(1) by (cases training) auto
  obtain t0 g0 where sh: "shuffle (rngEngine net) training = (t0, g0)"
    by (cases "shuffle (rngEngine net) training")
  have bd: "length training div batchSize * batchSize \<le> length t0"
    using len sh by simp
  have run': "spec_run_batches updateParameters (- eta / real batchSize)
                (- eta * lambda / real (length training))
                (map (spec_batch t0 batchSize) [0..<length training div batchSize]) net = Inr net1"
    using run sh by simp
  have o: "optimize updateParameters shuffle (rngEngine net) training
             (length training div batchSize) batchSize (- eta / real batchSize)
             (- eta * lambda / real (length training)) net = (None, t0, net1, g0)"
    by (rule optimize_Inr [where shuffle = shuffle, OF sh bd run'])
  have c1: "length (fst front) = inputSize net"
    and c2: "length (snd front) = getSize (last (layers net))"
    using chk tr by simp_all
  show ?thesis
    unfolding train_passes [OF tr c1 ne(2) c2 pos] train_loop_one
    using train_epoch_training [OF o] sh by simp
qed

text \<open>
  C4. For a positive batch size and \<open>nBatches = N div batchSize\<close>, as \<^verbatim>\<open>train\<close> passes
  it, \<^verbatim>\<open>optimize\<close> shuffles first and then calls the update callback once per batch
  index \<open>0, \<dots>, N div batchSize - 1\<close>, in this order, with the batch
  \<open>[shuffled ! (i * batchSize + k). k < batchSize]\<close> and the two ratios unchanged: the
  recording callback logs exactly these calls, and for any callback the call returns
  exactly when running the callback over these batches does, with that final state.
  The positions of the batches lie below \<open>(N div batchSize) * batchSize\<close>, no position
  occurs in two places, and \<open>N mod batchSize\<close> trailing positions are in no batch.
  One epoch of \<^verbatim>\<open>train\<close> is such a call with the network's \<^verbatim>\<open>updateParameters\<close> as the
  callback: it leaves the shuffled training set and the layers that the callback
  produces over these batches.
\<close>

theorem optimize_batches:
  assumes len: "length (fst (shuffle g training)) = length training"
    and pos: "0 < batchSize"
  shows "optimize recording_callback shuffle g training
           (length training div batchSize) batchSize lr reg []
         = (None, fst (shuffle g training),
            map (\<lambda>iBatch. (spec_batch (fst (shuffle g training)) batchSize iBatch, lr, reg))
                [0..<length training div batchSize],
            snd (shuffle g training)) \<and>
         (\<forall>training' st' g'.
            optimize upd shuffle g training (length training div batchSize) batchSize lr reg st
              = (None, training', st', g') \<longleftrightarrow>
            training' = fst (shuffle g training) \<and> g' = snd (shuffle g training) \<and>
            spec_run_batches upd lr reg
              (map (spec_batch (fst (shuffle g training)) batchSize)
                   [0..<length training div batchSize]) st = Inr st') \<and>
         (\<forall>i k. i < length training div batchSize \<and> k < batchSize \<longrightarrow>
            i * batchSize + k < length training div batchSize * batchSize) \<and>
         (\<forall>i k i' k'. k < batchSize \<and> k' < batchSize \<and>
            i * batchSize + k = i' * batchSize + k' \<longrightarrow> i = i' \<and> k = k') \<and>
         length training - length training div batchSize * batchSize
           = length training mod batchSize \<and>
         (training \<noteq> [] \<and> layers net \<noteq> [] \<and>
          length (fst (hd training)) = inputSize net \<and>
          length (snd (hd training)) = getSize (last (layers net)) \<and>
          length (fst (shuffle (rngEngine net) training)) = length training \<and>
          spec_run_batches updateParameters (- eta / real batchSize)
            (- eta * lambda / real (length training))
            (map (spec_batch (fst (shuffle (rngEngine net) training)) batchSize)
                 [0..<length training div batchSize]) net = Inr net1 \<longrightarrow>
          layers (fst (snd (train shuffle net training evaluation (Suc 0) batchSize
                              eta lambda))) = layers net1 \<and>
          snd (snd (train shuffle net training evaluation (Suc 0) batchSize eta lambda))
            = fst (shuffle (rngEngine net) training))"
proof -
  let ?n = "length training div batchSize"
  obtain training0 g0 where sh: "shuffle g training = (training0, g0)"
    by (cases "shuffle g training")
  have bd: "?n * batchSize \<le> length training0"
    using len sh by simp
  have rec: "optimize recording_callback shuffle g training ?n batchSize lr reg []
         = (None, fst (shuffle g training),
            map (\<lambda>iBatch. (spec_batch (fst (shuffle g training)) batchSize iBatch, lr, reg))
                [0..<?n],
            snd (shuffle g training))"
    using optimize_Inr [where shuffle = shuffle, OF sh bd spec_run_batches_recording] sh by (simp add: comp_def)
  have gen: "\<forall>training' st' g'.
            optimize upd shuffle g training ?n batchSize lr reg st
              = (None, training', st', g') \<longleftrightarrow>
            training' = fst (shuffle g training) \<and> g' = snd (shuffle g training) \<and>
            spec_run_batches upd lr reg
              (map (spec_batch (fst (shuffle g training)) batchSize) [0..<?n]) st = Inr st'"
  proof (intro allI)
    fix training' st' g'
    show "optimize upd shuffle g training ?n batchSize lr reg st
              = (None, training', st', g') \<longleftrightarrow>
            training' = fst (shuffle g training) \<and> g' = snd (shuffle g training) \<and>
            spec_run_batches upd lr reg
              (map (spec_batch (fst (shuffle g training)) batchSize) [0..<?n]) st = Inr st'"
      using optimize_None_iff [where shuffle = shuffle and upd = upd, OF sh bd] sh by simp
  qed
  have inside: "\<forall>i k. i < ?n \<and> k < batchSize \<longrightarrow> i * batchSize + k < ?n * batchSize"
  proof (intro allI impI)
    fix i k assume a: "i < ?n \<and> k < batchSize"
    then have "Suc i * batchSize \<le> ?n * batchSize"
      by (intro mult_le_mono1) simp
    then show "i * batchSize + k < ?n * batchSize" using a by simp
  qed
  have inj: "\<forall>i k i' k'. k < batchSize \<and> k' < batchSize \<and>
            i * batchSize + k = i' * batchSize + k' \<longrightarrow> i = i' \<and> k = k'"
  proof (intro allI impI)
    fix i k i' k'
    assume a: "k < batchSize \<and> k' < batchSize \<and> i * batchSize + k = i' * batchSize + k'"
    then have e: "i * batchSize + k = i' * batchSize + k'"
      and k: "k < batchSize" and k': "k' < batchSize"
      by simp_all
    have "(i * batchSize + k) div batchSize = i" "(i' * batchSize + k') div batchSize = i'"
      using k k' by simp_all
    then have i: "i = i'" using e by simp
    then show "i = i' \<and> k = k'" using e by simp
  qed
  have tail: "length training - ?n * batchSize = length training mod batchSize"
    by (simp add: minus_div_mult_eq_mod)
  have ep: "layers (fst (snd (train shuffle net training evaluation (Suc 0) batchSize
                              eta lambda))) = layers net1 \<and>
          snd (snd (train shuffle net training evaluation (Suc 0) batchSize eta lambda))
            = fst (shuffle (rngEngine net) training)"
    if "training \<noteq> []" "layers net \<noteq> []"
       "length (fst (hd training)) = inputSize net"
       "length (snd (hd training)) = getSize (last (layers net))"
       "length (fst (shuffle (rngEngine net) training)) = length training"
       "spec_run_batches updateParameters (- eta / real batchSize)
            (- eta * lambda / real (length training))
            (map (spec_batch (fst (shuffle (rngEngine net) training)) batchSize)
                 [0..<length training div batchSize]) net = Inr net1"
    using train_one_epoch_layers [where shuffle = shuffle, OF that(1-4) pos that(5,6)]
      train_one_epoch_training [where shuffle = shuffle, OF that(1-4) pos that(5,6)]
    by blast
  show ?thesis using rec gen inside inj tail ep by blast
qed

lemma ex_training_batches:
  "map (\<lambda>iBatch. (spec_batch (rev ex_training) 2 iBatch, - (1 / 20) :: real, 0 :: real))
       [0..<length ex_training div 2] =
     [([([5, 0], [0]), ([4, 0], [0])], - (1 / 20), 0),
      ([([3, 0], [0]), ([2, 0], [0])], - (1 / 20), 0)]"
  by (simp add: ex_training_def spec_batch_def upt_rec)

theorem optimize_batches_witness:
  "length (fst (ex_shuffle 0 ex_training)) = length ex_training \<and> (0::nat) < 2 \<and>
   optimize recording_callback ex_shuffle 0 ex_training (length ex_training div 2) 2
       (- (1 / 20)) 0 []
     = (None, rev ex_training,
        [([([5, 0], [0]), ([4, 0], [0])], - (1 / 20), 0),
         ([([3, 0], [0]), ([2, 0], [0])], - (1 / 20), 0)],
        1) \<and>
   length ex_training - length ex_training div 2 * 2 = 1 \<and>
   ex_training \<noteq> [] \<and> layers ex_net \<noteq> [] \<and>
   length (fst (hd ex_training)) = inputSize ex_net \<and>
   length (snd (hd ex_training)) = getSize (last (layers ex_net)) \<and>
   length (fst (ex_shuffle (rngEngine ex_net) ex_training)) = length ex_training \<and>
   (\<exists>net1. spec_run_batches updateParameters (- (1 / 10) / real 2)
            (- (1 / 10) * 0 / real (length ex_training))
            (map (spec_batch (fst (ex_shuffle (rngEngine ex_net) ex_training)) 2)
                 [0..<length ex_training div 2]) ex_net = Inr net1 \<and>
          layers (fst (snd (train ex_shuffle ex_net ex_training [] (Suc 0) 2 (1 / 10) 0)))
            = layers net1) \<and>
   snd (snd (train ex_shuffle ex_net ex_training [] (Suc 0) 2 (1 / 10) 0)) = rev ex_training"
proof -
  have h1: "length (fst (ex_shuffle 0 ex_training)) = length ex_training"
    by (simp add: ex_shuffle_def)
  have h2: "(0::nat) < 2" by simp
  have ne: "layers ex_net \<noteq> []" by (simp add: ex_net_def)
  have lg: "\<forall>L\<in>set (layers ex_net). activationFunction L = Logistic"
    by (simp add: ex_net_def ex_layer_def)
  obtain net1 where run:
    "spec_run_batches updateParameters (- (1 / 10) / real 2)
            (- (1 / 10) * 0 / real (length ex_training))
            (map (spec_batch (fst (ex_shuffle (rngEngine ex_net) ex_training)) 2)
                 [0..<length ex_training div 2]) ex_net = Inr net1"
    using spec_run_batches_Logistic [OF lg ne] by blast
  have h: "ex_training \<noteq> []" "length (fst (hd ex_training)) = inputSize ex_net"
    "length (snd (hd ex_training)) = getSize (last (layers ex_net))"
    "length (fst (ex_shuffle (rngEngine ex_net) ex_training)) = length ex_training"
    by (simp_all add: ex_training_def ex_net_def ex_layer_def ex_shuffle_def)
  note spec = optimize_batches [where shuffle = ex_shuffle and upd = recording_callback
      and st = "[]" and lr = "- (1 / 20)" and reg = 0 and net = ex_net and eta = "1 / 10"
      and lambda = 0 and ?net1.0 = net1 and evaluation = "[]", OF h1 h2]
  have t: "layers (fst (snd (train ex_shuffle ex_net ex_training [] (Suc 0) 2 (1 / 10) 0)))
            = layers net1"
    and t': "snd (snd (train ex_shuffle ex_net ex_training [] (Suc 0) 2 (1 / 10) 0))
            = fst (ex_shuffle (rngEngine ex_net) ex_training)"
    using spec ne h run by blast+
  have t'': "snd (snd (train ex_shuffle ex_net ex_training [] (Suc 0) 2 (1 / 10) 0))
            = rev ex_training"
    using t' by (simp add: ex_shuffle_def)
  have "optimize recording_callback ex_shuffle 0 ex_training (length ex_training div 2) 2
       (- (1 / 20)) 0 []
     = (None, rev ex_training,
        map (\<lambda>iBatch. (spec_batch (rev ex_training) 2 iBatch, - (1 / 20), 0))
            [0..<length ex_training div 2], 1)"
    using spec [THEN conjunct1] by (simp add: ex_shuffle_def)
  moreover have "length ex_training - length ex_training div 2 * 2 = 1"
    using spec by (simp add: ex_training_def)
  ultimately have "optimize recording_callback ex_shuffle 0 ex_training
       (length ex_training div 2) 2 (- (1 / 20)) 0 []
     = (None, rev ex_training,
        [([([5, 0], [0]), ([4, 0], [0])], - (1 / 20), 0),
         ([([3, 0], [0]), ([2, 0], [0])], - (1 / 20), 0)],
        1)"
    and "length ex_training - length ex_training div 2 * 2 = 1"
    by (simp_all only: ex_training_batches)
  then show ?thesis
    using h1 h2 ne h run t t'' by blast
qed

end
